theory Spec2Isabelle
  imports Main "HOL-Library.Word"
begin

section \<open>Faults and errors\<close>

text \<open>
  A Go function of the repository either returns (possibly with a non-nil \<open>error\<close>) or
  does not return normally. The second case is a \<open>fault\<close>: a run-time panic of the
  source expression itself, a lock that cannot be taken, or a call nesting deeper than the
  fuel given to the dispatcher model.
\<close>

datatype fault =
    NilDereference
  | NilMapAssignment
  | IndexOutOfRange
  | WouldBlock
  | OutOfFuel

text \<open>
  Go's \<open>error\<close> interface. \<open>HesError\<close> is a \<open>*hes.Error\<close> (status code and message);
  \<open>GoError\<close> is any other error value, identified by its text.
\<close>

datatype error =
    HesError int string
  | GoError string

section \<open>Signed key store (signed\_keys.go)\<close>

text \<open>
  \<open>sync.RWMutex\<close>, sequentially: the writer flag and the number of readers holding it.
  Taking a lock that is not free does not return (\<open>None\<close>).
\<close>

record RWMutex =
  writer :: bool
  readers :: nat

definition RLock :: "RWMutex \<Rightarrow> RWMutex option" where
  "RLock mu = (if writer mu then None else Some (mu\<lparr>readers := readers mu + 1\<rparr>))"

definition RUnlock :: "RWMutex \<Rightarrow> RWMutex" where
  "RUnlock mu = mu\<lparr>readers := readers mu - 1\<rparr>"

definition Lock :: "RWMutex \<Rightarrow> RWMutex option" where
  "Lock mu = (if writer mu \<or> 0 < readers mu then None else Some (mu\<lparr>writer := True\<rparr>))"

definition Unlock :: "RWMutex \<Rightarrow> RWMutex" where
  "Unlock mu = mu\<lparr>writer := False\<rparr>"

text \<open>
  The three generators. A Go slice of strings is a \<open>string list\<close> (the nil slice is
  \<open>[]\<close>); the pointer of \<open>AtomicSignedKeys\<close> is an option, \<open>None\<close> for nil.
\<close>

record SimpleSignedKeys =
  simple_keys :: "string list"

record RWMutexSignedKeys =
  mutex :: RWMutex
  rw_keys :: "string list"

record AtomicSignedKeys =
  atomic_keys :: "string list option"

definition SimpleSignedKeys_GetKeys :: "SimpleSignedKeys \<Rightarrow> string list" where
  "SimpleSignedKeys_GetKeys sk = simple_keys sk"

definition SimpleSignedKeys_SetKeys :: "SimpleSignedKeys \<Rightarrow> string list \<Rightarrow> SimpleSignedKeys" where
  "SimpleSignedKeys_SetKeys sk keys = sk\<lparr>simple_keys := keys\<rparr>"

text \<open>\<open>RLock\<close>, read, and the deferred \<open>RUnlock\<close>; returns the keys and the generator.\<close>

definition RWMutexSignedKeys_GetKeys ::
  "RWMutexSignedKeys \<Rightarrow> (string list \<times> RWMutexSignedKeys) option" where
  "RWMutexSignedKeys_GetKeys rwSk =
     (case RLock (mutex rwSk) of
        None \<Rightarrow> None
      | Some mu \<Rightarrow>
          let held = rwSk\<lparr>mutex := mu\<rparr>;
              result = rw_keys held
          in Some (result, held\<lparr>mutex := RUnlock (mutex held)\<rparr>))"

definition RWMutexSignedKeys_SetKeys ::
  "RWMutexSignedKeys \<Rightarrow> string list \<Rightarrow> RWMutexSignedKeys option" where
  "RWMutexSignedKeys_SetKeys rwSk keys =
     (case Lock (mutex rwSk) of
        None \<Rightarrow> None
      | Some mu \<Rightarrow>
          let held = rwSk\<lparr>mutex := mu, rw_keys := keys\<rparr>
          in Some (held\<lparr>mutex := Unlock (mutex held)\<rparr>))"

text \<open>The atomic load, then the dereference of the loaded pointer.\<close>

definition AtomicSignedKeys_GetKeys :: "AtomicSignedKeys \<Rightarrow> fault + string list" where
  "AtomicSignedKeys_GetKeys atSk =
     (case atomic_keys atSk of
        None \<Rightarrow> Inl NilDereference
      | Some keys \<Rightarrow> Inr keys)"

text \<open>\<open>s := keys[0:]\<close> is the whole slice; the pointer to it is stored.\<close>

definition AtomicSignedKeys_SetKeys :: "AtomicSignedKeys \<Rightarrow> string list \<Rightarrow> AtomicSignedKeys" where
  "AtomicSignedKeys_SetKeys atSk keys = (let s = drop 0 keys in atSk\<lparr>atomic_keys := Some s\<rparr>)"

text \<open>The interface \<open>SignedKeysGenerator\<close>: one of the three implementations.\<close>

datatype SignedKeysGenerator =
    Simple SimpleSignedKeys
  | RWMutexed RWMutexSignedKeys
  | Atomic AtomicSignedKeys

fun GetKeys :: "SignedKeysGenerator \<Rightarrow> fault + string list" where
  "GetKeys (Simple sk) = Inr (SimpleSignedKeys_GetKeys sk)"
| "GetKeys (RWMutexed rwSk) =
     (case RWMutexSignedKeys_GetKeys rwSk of
        None \<Rightarrow> Inl WouldBlock
      | Some (keys, _) \<Rightarrow> Inr keys)"
| "GetKeys (Atomic atSk) = AtomicSignedKeys_GetKeys atSk"

fun SetKeys :: "SignedKeysGenerator \<Rightarrow> string list \<Rightarrow> fault + SignedKeysGenerator" where
  "SetKeys (Simple sk) keys = Inr (Simple (SimpleSignedKeys_SetKeys sk keys))"
| "SetKeys (RWMutexed rwSk) keys =
     (case RWMutexSignedKeys_SetKeys rwSk keys of
        None \<Rightarrow> Inl WouldBlock
      | Some rwSk' \<Rightarrow> Inr (RWMutexed rwSk'))"
| "SetKeys (Atomic atSk) keys = Inr (Atomic (AtomicSignedKeys_SetKeys atSk keys))"

text \<open>A mutex nobody holds, as between two calls of a sequential caller.\<close>

definition unheld :: "RWMutex \<Rightarrow> bool" where
  "unheld mu = (\<not> writer mu \<and> readers mu = 0)"

section \<open>Requests, responses and the Context (context.go)\<close>

text \<open>
  \<open>http.Header\<close>: a map from canonical header names to their values in order. The
  canonicalisation of a key given to \<open>Get\<close>, \<open>Set\<close>, \<open>Add\<close> or \<open>Del\<close> is not
  modelled: the keys used are canonical names.
\<close>

type_synonym Header = "string \<rightharpoonup> string list"

definition Header_Get :: "Header \<Rightarrow> string \<Rightarrow> string" where
  "Header_Get h key = (case h key of None \<Rightarrow> [] | Some [] \<Rightarrow> [] | Some (v # _) \<Rightarrow> v)"

definition Header_Set :: "Header \<Rightarrow> string \<Rightarrow> string \<Rightarrow> Header" where
  "Header_Set h key v = h(key \<mapsto> [v])"

definition Header_Add :: "Header \<Rightarrow> string \<Rightarrow> string \<Rightarrow> Header" where
  "Header_Add h key v = h(key \<mapsto> (case h key of None \<Rightarrow> [] | Some vs \<Rightarrow> vs) @ [v])"


text \<open>
  The header names are constants of a file that is not among the sources; each is given
  here by the canonical form of its name, the key under which \<open>http.Header\<close> keeps it.
\<close>

definition HeaderXForwardedFor :: string where "HeaderXForwardedFor = ''X-Forwarded-For''"
definition HeaderXRealIP :: string where "HeaderXRealIP = ''X-Real-Ip''"
definition HeaderSetCookie :: string where "HeaderSetCookie = ''Set-Cookie''"

text \<open>\<open>http.Cookie\<close>, with the fields \<open>cloneCookie\<close> copies.\<close>

record Cookie =
  cookie_Name :: string
  cookie_Value :: string
  cookie_Path :: string
  cookie_Domain :: string
  cookie_Expires :: int
  cookie_RawExpires :: string
  cookie_MaxAge :: int
  cookie_Secure :: bool
  cookie_HttpOnly :: bool
  cookie_SameSite :: int
  cookie_Raw :: string
  cookie_Unparsed :: "string list"

text \<open>
  \<open>*http.Request\<close>: its method, the path of its URL, its header, the peer address
  \<open>RemoteAddr\<close>, and the cookies that net/http parses out of the \<open>Cookie\<close> header, in
  header order.
\<close>

record Request =
  req_Method :: string
  req_URL_Path :: string
  req_Header :: Header
  RemoteAddr :: string
  req_Cookies :: "Cookie list"

text \<open>
  An \<open>io.Reader\<close> body: the bytes it yields, the error a copy from it ends with (if
  any), and whether it is an \<open>io.Closer\<close> too.
\<close>

record Reader =
  reader_data :: string
  reader_err :: "error option"
  reader_closer :: bool

text \<open>A value of type \<open>interface{}\<close>; the nil interface is \<open>None\<close> of \<open>iface option\<close>.\<close>

datatype iface =
    IString string
  | IInt int
  | IBool bool
  | IReader Reader

text \<open>
  \<open>http.ResponseWriter\<close>: the calls made on it, in order. The bytes of an error's text
  are kept symbolic (\<open>ErrorText\<close>), the rendering being the error type's own. \<open>fail_with\<close>
  is the error the transport answers a \<open>Write\<close> with, if it does. The writer's header map is
  the one the Context holds in \<open>Headers\<close> (the same map in Go), so it is not repeated here.
\<close>

datatype payload = Bytes string | ErrorText error | Stream Reader

datatype resp_call = WriteHeader int | Write payload

record ResponseWriter =
  calls :: "resp_call list"
  fail_with :: "error option"

definition resp_WriteHeader :: "ResponseWriter \<Rightarrow> int \<Rightarrow> ResponseWriter" where
  "resp_WriteHeader w code = w\<lparr>calls := calls w @ [WriteHeader code]\<rparr>"

definition resp_Write :: "ResponseWriter \<Rightarrow> payload \<Rightarrow> error option \<times> ResponseWriter" where
  "resp_Write w p = (fail_with w, w\<lparr>calls := calls w @ [Write p]\<rparr>)"

type_synonym Validator = "string \<Rightarrow> error option"

text \<open>
  The \<open>Elton\<close> instance: those of its fields that the functions below read and that
  do not mention the Context. The fields holding handlers and listeners are in
  \<open>EltonFuncs\<close> further down, HOL records not being recursive; the server, the router
  and its route list, the name registry and the pool are not modelled as fields.
  \<open>GenerateID\<close> yields the identifier of the request at hand.
\<close>

record Elton =
  status :: "32 word"
  EnableTrace :: bool
  SignedKeys :: "SignedKeysGenerator option"
  validators :: "(string \<rightharpoonup> Validator) option"
  GenerateID :: "(unit \<Rightarrow> string) option"

definition ReuseContextEnabled :: "32 word" where "ReuseContextEnabled = 0"
definition ReuseContextDisabled :: "32 word" where "ReuseContextDisabled = 1"

text \<open>
  The continuation stored in \<open>Context.Next\<close>: the closure installed by \<open>Elton.Handle\<close>
  (whose code is \<open>Handle_Next\<close> below) or some other function value.
\<close>

datatype next_func = RouteNext | ForeignNext

text \<open>
  The Context. Pointers, maps, interfaces and byte slices that can be nil are options.
  Route parameters are the key/value pairs in the order a \<open>range\<close> visits them.
\<close>

record Context =
  Request :: "Request option"
  Response :: "ResponseWriter option"
  Headers :: "Header option"
  Committed :: bool
  ID :: string
  Route :: string
  Next :: "next_func option"
  Params :: "(string \<times> string) list option"
  StatusCode :: int
  Body :: "iface option"
  BodyBuffer :: "string option"
  RequestBody :: "string option"
  ctx_m :: "(iface \<rightharpoonup> iface) option"
  realIP :: string
  clientIP :: string
  elton :: "Elton option"
  reuseStatus :: "32 word"
  cacheQuery :: "Header option"

definition Reset :: "Context \<Rightarrow> Context" where
  "Reset c =
     c\<lparr>Request := None,
       Response := None,
       Headers := None,
       Committed := False,
       ID := [],
       Route := [],
       Next := None,
       Params := None,
       StatusCode := 0,
       Body := None,
       BodyBuffer := None,
       RequestBody := None,
       ctx_m := None,
       realIP := [],
       clientIP := [],
       elton := None,
       reuseStatus := ReuseContextEnabled,
       cacheQuery := None\<rparr>"

text \<open>\<open>&Context{}\<close>, what the pool's \<open>New\<close> constructs: every field at Go's zero value.\<close>

definition zero_Context :: Context where
  "zero_Context =
     \<lparr>Request = None, Response = None, Headers = None, Committed = False, ID = [],
      Route = [], Next = None, Params = None, StatusCode = 0, Body = None,
      BodyBuffer = None, RequestBody = None, ctx_m = None, realIP = [], clientIP = [],
      elton = None, reuseStatus = 0, cacheQuery = None\<rparr>"

definition DisableReuse :: "Context \<Rightarrow> Context" where
  "DisableReuse c = c\<lparr>reuseStatus := ReuseContextDisabled\<rparr>"

definition isReuse :: "Context \<Rightarrow> bool" where
  "isReuse c = (let v = reuseStatus c in v = ReuseContextEnabled)"

definition NewContext :: "ResponseWriter option \<Rightarrow> Header option \<Rightarrow> Request option \<Rightarrow> Context" where
  \<comment> \<open>the second argument is \<open>resp.Header()\<close>, read only when \<open>resp\<close> is not nil\<close>
  "NewContext resp resp_header req =
     (let c = zero_Context;
          c = c\<lparr>Request := req\<rparr>;
          c = c\<lparr>Response := resp\<rparr>
      in if resp \<noteq> None then c\<lparr>Headers := resp_header\<rparr> else c)"

subsection \<open>Redirect\<close>

text \<open>
  Package-level values declared in a file that is not among the sources: the bounds of the
  redirect status codes and the error returned for a code outside them.
\<close>

record Constants =
  MinRedirectCode :: int
  MaxRedirectCode :: int
  ErrInvalidRedirect :: error

text \<open>
  \<open>http.Redirect\<close> of net/http, called with the writer and the request of the Context.
  Its string functions are parameters: whether the URL parses as a relative one (neither
  scheme nor host), what a relative URL gives against the path of the request, the escaping
  of the \<open>Location\<close> value, and the short HTML body for a URL and a code. The request is
  read for a relative URL (\<open>r.URL.Path\<close>) and, when the response has no \<open>Content-Type\<close>
  yet, for its method (\<open>r.Method\<close>): a nil request is a fault there, as a nil writer is
  at \<open>w.Header()\<close>. The header map of the writer is the one the Context holds in
  \<open>Headers\<close>. The body goes out with \<open>fmt.Fprintln\<close>, which appends a newline and
  whose result is dropped.
\<close>

record net_http =
  url_relative :: "string \<Rightarrow> bool"
  url_resolve :: "string \<Rightarrow> string \<Rightarrow> string"
  hexEscapeNonASCII :: "string \<Rightarrow> string"
  redirect_body :: "string \<Rightarrow> int \<Rightarrow> string"

definition http_Redirect ::
  "net_http \<Rightarrow> Header option \<Rightarrow> ResponseWriter option \<Rightarrow> Request option \<Rightarrow> string \<Rightarrow> int
     \<Rightarrow> fault + (Header option \<times> ResponseWriter option)" where
  "http_Redirect lib header w r url code =
     (case (if url_relative lib url
            then (case r of
                    None \<Rightarrow> Inl NilDereference
                  | Some rq \<Rightarrow>
                      let oldpath = (if req_URL_Path rq = [] then ''/'' else req_URL_Path rq)
                      in Inr (url_resolve lib oldpath url))
            else Inr url) of
        Inl f \<Rightarrow> Inl f
      | Inr url \<Rightarrow>
          (case w of
             None \<Rightarrow> Inl NilDereference
           | Some w \<Rightarrow>
               (case header of
                  None \<Rightarrow> Inl NilMapAssignment
                | Some h \<Rightarrow>
                    let hadCT = (h ''Content-Type'' \<noteq> None);
                        h = Header_Set h ''Location'' (hexEscapeNonASCII lib url)
                    in if hadCT then Inr (Some h, Some (resp_WriteHeader w code))
                       else
                         (case r of
                            None \<Rightarrow> Inl NilDereference
                          | Some rq \<Rightarrow>
                              let h = (if req_Method rq = ''GET'' \<or> req_Method rq = ''HEAD''
                                       then Header_Set h ''Content-Type'' ''text/html; charset=utf-8''
                                       else h);
                                  w = resp_WriteHeader w code
                              in if req_Method rq = ''GET''
                                 then Inr (Some h,
                                        Some (snd (resp_Write w
                                          (Bytes (redirect_body lib url code @ [CHR 0x0A])))))
                                 else Inr (Some h, Some w)))))"

definition Redirect ::
  "Constants \<Rightarrow> net_http \<Rightarrow> Context \<Rightarrow> int \<Rightarrow> string \<Rightarrow> fault + (error option \<times> Context)" where
  "Redirect k lib c code url =
     (if code < MinRedirectCode k \<or> code > MaxRedirectCode k
      then Inr (Some (ErrInvalidRedirect k), c)
      else
        let c = c\<lparr>StatusCode := code\<rparr>;
            c = c\<lparr>Committed := True\<rparr>;
            c = c\<lparr>Body := None\<rparr>;
            c = c\<lparr>BodyBuffer := None\<rparr>
        in case http_Redirect lib (Headers c) (Response c) (Request c) url code of
             Inl f \<Rightarrow> Inl f
           | Inr (h, w) \<Rightarrow> Inr (None, c\<lparr>Headers := h, Response := w\<rparr>))"

subsection \<open>Cookies and signed cookies\<close>

definition SignedCookieSuffix :: string where
  "SignedCookieSuffix = ''.sig''"

text \<open>\<open>hes.New\<close>: an error of the hes library with its default status code.\<close>

definition hes_New :: "string \<Rightarrow> error" where
  "hes_New message = HesError 400 message"

definition errSignKeyIsNil :: error where
  "errSignKeyIsNil = hes_New ''keys for sign cookie can't be nil''"

definition ErrNoCookie :: error where
  "ErrNoCookie = GoError ''http: named cookie not present''"

definition AddHeader :: "Context \<Rightarrow> string \<Rightarrow> string \<Rightarrow> fault + Context" where
  "AddHeader c key v =
     (case Headers c of
        None \<Rightarrow> Inl NilMapAssignment
      | Some h \<Rightarrow> Inr (c\<lparr>Headers := Some (Header_Add h key v)\<rparr>))"

text \<open>\<open>Request.Cookie\<close>: the first cookie of that name, or \<open>ErrNoCookie\<close>.\<close>

definition Context_Cookie :: "Context \<Rightarrow> string \<Rightarrow> fault + (Cookie option \<times> error option)" where
  "Context_Cookie c name =
     (case Request c of
        None \<Rightarrow> Inl NilDereference
      | Some r \<Rightarrow>
          (if name = [] then Inr (None, Some ErrNoCookie)
           else case find (\<lambda>ck. cookie_Name ck = name) (req_Cookies r) of
                  None \<Rightarrow> Inr (None, Some ErrNoCookie)
                | Some ck \<Rightarrow> Inr (Some ck, None)))"

text \<open>\<open>Cookie.String\<close> of net/http, the serialisation of a cookie, is a parameter.\<close>

definition AddCookie :: "(Cookie \<Rightarrow> string) \<Rightarrow> Context \<Rightarrow> Cookie \<Rightarrow> fault + (error option \<times> Context)" where
  "AddCookie cookie_String c cookie =
     (case AddHeader c HeaderSetCookie (cookie_String cookie) of
        Inl f \<Rightarrow> Inl f
      | Inr c' \<Rightarrow> Inr (None, c'))"

definition getKeys :: "Context \<Rightarrow> fault + string list" where
  "getKeys c =
     (case elton c of
        None \<Rightarrow> Inr []
      | Some e \<Rightarrow>
          (case SignedKeys e of
             None \<Rightarrow> Inr []
           | Some g \<Rightarrow> GetKeys g))"

text \<open>
  The keygrip library is a pair of parameters: \<open>Sign keys data\<close> is the digest under the
  first key, \<open>Index keys data digest\<close> the position of the first key that verifies, or -1.
\<close>

record keygrip =
  kg_Sign :: "string list \<Rightarrow> string \<Rightarrow> string"
  kg_Index :: "string list \<Rightarrow> string \<Rightarrow> string \<Rightarrow> int"

definition GetSignedCookie ::
  "keygrip \<Rightarrow> Context \<Rightarrow> string \<Rightarrow> fault + (Cookie option \<times> int \<times> error option)" where
  "GetSignedCookie kg c name =
     (let index = - 1 in
      case Context_Cookie c name of
        Inl f \<Rightarrow> Inl f
      | Inr (cookie, Some err) \<Rightarrow> Inr (cookie, index, Some err)
      | Inr (cookie, None) \<Rightarrow>
          (case getKeys c of
             Inl f \<Rightarrow> Inl f
           | Inr keys \<Rightarrow>
               if length keys = 0 then Inr (cookie, index, Some errSignKeyIsNil)
               else
                 (case Context_Cookie c (name @ SignedCookieSuffix) of
                    Inl f \<Rightarrow> Inl f
                  | Inr (sc, Some err) \<Rightarrow> Inr (None, index, Some err)
                  | Inr (sc, None) \<Rightarrow>
                      (case (cookie, sc) of
                         (Some ck, Some sck) \<Rightarrow>
                           Inr (Some ck, kg_Index kg keys (cookie_Value ck) (cookie_Value sck), None)
                       | _ \<Rightarrow> Inl NilDereference))))"

definition cloneCookie :: "Cookie \<Rightarrow> Cookie" where
  "cloneCookie cookie =
     \<lparr>cookie_Name = cookie_Name cookie,
      cookie_Value = cookie_Value cookie,
      cookie_Path = cookie_Path cookie,
      cookie_Domain = cookie_Domain cookie,
      cookie_Expires = cookie_Expires cookie,
      cookie_RawExpires = cookie_RawExpires cookie,
      cookie_MaxAge = cookie_MaxAge cookie,
      cookie_Secure = cookie_Secure cookie,
      cookie_HttpOnly = cookie_HttpOnly cookie,
      cookie_SameSite = cookie_SameSite cookie,
      cookie_Raw = cookie_Raw cookie,
      cookie_Unparsed = cookie_Unparsed cookie\<rparr>"

definition addSigCookie ::
  "keygrip \<Rightarrow> (Cookie \<Rightarrow> string) \<Rightarrow> Context \<Rightarrow> Cookie \<Rightarrow> fault + (error option \<times> Context)" where
  "addSigCookie kg cookie_String c cookie =
     (let sc = cloneCookie cookie;
          sc = sc\<lparr>cookie_Name := cookie_Name sc @ SignedCookieSuffix\<rparr>
      in case getKeys c of
           Inl f \<Rightarrow> Inl f
         | Inr keys \<Rightarrow>
             if length keys = 0 then Inr (None, c)
             else
               let sc = sc\<lparr>cookie_Value := kg_Sign kg keys (cookie_Value sc)\<rparr>
               in AddCookie cookie_String c sc)"

definition AddSignedCookie ::
  "keygrip \<Rightarrow> (Cookie \<Rightarrow> string) \<Rightarrow> Context \<Rightarrow> Cookie \<Rightarrow> fault + (error option \<times> Context)" where
  "AddSignedCookie kg cookie_String c cookie =
     (case AddCookie cookie_String c cookie of
        Inl f \<Rightarrow> Inl f
      | Inr (Some err, c') \<Rightarrow> Inr (Some err, c')
      | Inr (None, c') \<Rightarrow> addSigCookie kg cookie_String c' cookie)"

section \<open>Trace records and the Server-Timing header (elton.go)\<close>

text \<open>
  A \<open>TraceInfo\<close>: the handler's name and its duration, a \<open>time.Duration\<close> in
  nanoseconds (an int64; the durations recorded are differences of two readings of the
  monotonic clock, so the arithmetic below stays far from the bounds and is done in
  \<open>int\<close>).
\<close>

record TraceInfo =
  Name :: string
  Duration :: int

text \<open>\<open>strconv.Itoa\<close>: the decimal digits, with a minus sign for a negative number.\<close>

definition digit_char :: "nat \<Rightarrow> char" where
  "digit_char n = ''0123456789'' ! n"

fun nat_digits :: "nat \<Rightarrow> string" where
  "nat_digits n = (if n < 10 then [digit_char n] else nat_digits (n div 10) @ [digit_char (n mod 10)])"

declare nat_digits.simps [simp del]

definition Itoa :: "int \<Rightarrow> string" where
  "Itoa i = (if i < 0 then CHR ''-'' # nat_digits (nat (- i)) else nat_digits (nat i))"

text \<open>Go's \<open>/\<close> and \<open>%\<close> on integers truncate towards zero.\<close>

definition quo :: "int \<Rightarrow> int \<Rightarrow> int" where
  "quo a b = (if (a < 0) = (b < 0) then \<bar>a\<bar> div \<bar>b\<bar> else - (\<bar>a\<bar> div \<bar>b\<bar>))"

definition rem :: "int \<Rightarrow> int \<Rightarrow> int" where
  "rem a b = a - b * quo a b"

definition getMs :: "int \<Rightarrow> string" where
  "getMs ns =
     (let microSecond = 1000;
          milliSecond = 1000000
      in if ns < microSecond then ''0''
         else
           let ms = quo ns milliSecond;
               prefix = Itoa ms;
               offset = quo (rem ns milliSecond) microSecond;
               unit = 10
           in if offset < unit then prefix
              else if offset < 100 then prefix @ ''.0'' @ Itoa (quo offset unit)
              else prefix @ ''.'' @ Itoa (quo offset unit))"

text \<open>
  Modelled from the spec: the byte constants \<open>ServerTimingDur\<close>, \<open>ServerTimingDesc\<close> and
  \<open>ServerTimingEnd\<close> are declared in a file that is not among the sources; the spec gives
  the token as \<open>{prefix}{index};dur={durationMs};desc="{name}"\<close>.
\<close>

definition ServerTimingDur :: string where "ServerTimingDur = '';dur=''"
definition ServerTimingDesc :: string where "ServerTimingDesc = '';desc='' @ [CHR 0x22]"
definition ServerTimingEnd :: string where "ServerTimingEnd = [CHR 0x22]"

text \<open>
  The loop of \<open>ServerTiming\<close> over the records, with the index \<open>i\<close>, the number of
  records \<open>sz\<close> and the string builder \<open>s\<close>.
\<close>

fun ServerTiming_loop :: "string \<Rightarrow> nat \<Rightarrow> nat \<Rightarrow> TraceInfo list \<Rightarrow> string \<Rightarrow> string" where
  "ServerTiming_loop prefix sz i [] s = s"
| "ServerTiming_loop prefix sz i (traceInfo # rest) s =
     (let v = Duration traceInfo;
          s = s @ prefix;
          s = s @ Itoa (int i);
          s = s @ ServerTimingDur;
          s = s @ getMs v;
          s = s @ ServerTimingDesc;
          s = s @ Name traceInfo;
          s = s @ ServerTimingEnd;
          s = (if int i \<noteq> int sz - 1 then s @ '','' else s)
      in ServerTiming_loop prefix sz (i + 1) rest s)"

definition ServerTiming :: "TraceInfo list \<Rightarrow> string \<Rightarrow> string" where
  "ServerTiming traceInfos prefix =
     (let sz = length traceInfos
      in if sz = 0 then [] else ServerTiming_loop prefix sz 0 traceInfos [])"

text \<open>
  The spec's description of the encoding, to compare \<open>ServerTiming\<close> with: the duration
  in milliseconds truncated to two decimals, the decimals left out when the part below a
  millisecond is under 10 microseconds, \<open>0\<close> under one microsecond; one token per record,
  joined by commas.
\<close>

definition two_digits :: "nat \<Rightarrow> string" where
  "two_digits h = [digit_char (h div 10), digit_char (h mod 10)]"

definition ms_text :: "int \<Rightarrow> string" where
  "ms_text ns =
     (if ns < 1000 then ''0''
      else if ns mod 1000000 < 10000 then Itoa (ns div 1000000)
      else Itoa (ns div 1000000) @ ''.'' @ two_digits (nat ((ns div 10000) mod 100)))"

definition token :: "string \<Rightarrow> nat \<Rightarrow> TraceInfo \<Rightarrow> string" where
  "token prefix i t =
     prefix @ Itoa (int i) @ '';dur='' @ ms_text (Duration t) @ '';desc='' @ [CHR 0x22] @ Name t @ [CHR 0x22]"

fun comma_join :: "string list \<Rightarrow> string" where
  "comma_join [] = []"
| "comma_join [x] = x"
| "comma_join (x # y # ys) = x @ '','' @ comma_join (y # ys)"

section \<open>IP resolution (context.go, elton.go)\<close>

text \<open>
  A parsed \<open>net.IP\<close>: an IPv4 address (also one written as an IPv4-mapped IPv6 address,
  which \<open>To4\<close> turns into four bytes) or any other IPv6 address, as a number. The nil IP
  is \<open>None\<close>. A \<open>net.IPNet\<close> is the network number and the length of the mask.
\<close>

datatype IP = IP4 nat | IP6 nat

datatype IPNet = Net4 nat nat | Net6 nat nat

definition ipv4 :: "nat \<Rightarrow> nat \<Rightarrow> nat \<Rightarrow> nat \<Rightarrow> nat" where
  "ipv4 a b c d = a * 2 ^ 24 + b * 2 ^ 16 + c * 2 ^ 8 + d"

text \<open>
  \<open>IPNet.Contains\<close>: false when the lengths differ (so for the nil IP), else the
  comparison of the masked bytes.
\<close>

fun Contains :: "IPNet \<Rightarrow> IP option \<Rightarrow> bool" where
  "Contains (Net4 nn ones) (Some (IP4 a)) = (a div 2 ^ (32 - ones) = nn div 2 ^ (32 - ones))"
| "Contains (Net6 nn ones) (Some (IP6 a)) = (a div 2 ^ (128 - ones) = nn div 2 ^ (128 - ones))"
| "Contains block ip = False"

definition privateIPBlocks :: "IPNet list" where
  "privateIPBlocks =
     [Net4 (ipv4 127 0 0 0) 8,
      Net4 (ipv4 10 0 0 0) 8,
      Net4 (ipv4 172 16 0 0) 12,
      Net4 (ipv4 192 168 0 0) 16,
      Net6 1 128,
      Net6 (0xfe80 * 2 ^ 112) 10,
      Net6 (0xfc00 * 2 ^ 112) 7]"

fun IsPrivateIP_loop :: "IPNet list \<Rightarrow> IP option \<Rightarrow> bool" where
  "IsPrivateIP_loop [] ip = False"
| "IsPrivateIP_loop (block # rest) ip = (if Contains block ip then True else IsPrivateIP_loop rest ip)"

definition IsPrivateIP :: "IP option \<Rightarrow> bool" where
  "IsPrivateIP ip = IsPrivateIP_loop privateIPBlocks ip"

text \<open>\<open>strings.Split\<close> with a one-byte separator.\<close>

fun Split :: "string \<Rightarrow> char \<Rightarrow> string list" where
  "Split [] sep = [[]]"
| "Split (ch # rest) sep =
     (if ch = sep then [] # Split rest sep
      else case Split rest sep of
             [] \<Rightarrow> [[ch]]
           | piece # pieces \<Rightarrow> (ch # piece) # pieces)"

text \<open>
  \<open>strings.TrimSpace\<close>: the white space of Unicode is cut from both ends. A string is
  its bytes. Six of the white-space code points are single bytes; the others are, in
  UTF-8, the two-byte sequences of U+0085 and U+00A0 and the three-byte sequences of
  U+1680, U+2000 to U+200A, U+2028, U+2029, U+202F, U+205F and U+3000. Any other byte, be
  it part of another rune or of none, ends the cut. The cut from the right reads the same
  sequences backwards.
\<close>

definition isSpace :: "char \<Rightarrow> bool" where
  "isSpace ch = (ch = CHR '' '' \<or> ch = CHR 0x09 \<or> ch = CHR 0x0A \<or> ch = CHR 0x0B
                 \<or> ch = CHR 0x0C \<or> ch = CHR 0x0D)"

definition isSpace2 :: "char \<Rightarrow> char \<Rightarrow> bool" where
  "isSpace2 a b = (a = CHR 0xC2 \<and> (b = CHR 0x85 \<or> b = CHR 0xA0))"

definition isSpace3 :: "char \<Rightarrow> char \<Rightarrow> char \<Rightarrow> bool" where
  "isSpace3 a b c =
     ((a = CHR 0xE1 \<and> b = CHR 0x9A \<and> c = CHR 0x80)
      \<or> (a = CHR 0xE2 \<and> b = CHR 0x80
          \<and> ((0x80 \<le> (of_char c :: nat) \<and> (of_char c :: nat) \<le> 0x8A)
              \<or> c = CHR 0xA8 \<or> c = CHR 0xA9 \<or> c = CHR 0xAF))
      \<or> (a = CHR 0xE2 \<and> b = CHR 0x81 \<and> c = CHR 0x9F)
      \<or> (a = CHR 0xE3 \<and> b = CHR 0x80 \<and> c = CHR 0x80))"

fun cut_spaces ::
  "(char \<Rightarrow> char \<Rightarrow> bool) \<Rightarrow> (char \<Rightarrow> char \<Rightarrow> char \<Rightarrow> bool) \<Rightarrow> string \<Rightarrow> string" where
  "cut_spaces two three (a # b # c # rest) =
     (if isSpace a then cut_spaces two three (b # c # rest)
      else if two a b then cut_spaces two three (c # rest)
      else if three a b c then cut_spaces two three rest
      else a # b # c # rest)"
| "cut_spaces two three [a, b] =
     (if isSpace a then cut_spaces two three [b]
      else if two a b then []
      else [a, b])"
| "cut_spaces two three [a] = (if isSpace a then [] else [a])"
| "cut_spaces two three [] = []"

definition TrimLeftSpace :: "string \<Rightarrow> string" where
  "TrimLeftSpace s = cut_spaces isSpace2 isSpace3 s"

definition TrimRightSpace :: "string \<Rightarrow> string" where
  "TrimRightSpace s = rev (cut_spaces (\<lambda>b a. isSpace2 a b) (\<lambda>c b a. isSpace3 a b c) (rev s))"

definition TrimSpace :: "string \<Rightarrow> string" where
  "TrimSpace s = TrimRightSpace (TrimLeftSpace s)"

text \<open>Go's \<open><\<close> on strings: the bytes compared from the left.\<close>

fun string_less :: "string \<Rightarrow> string \<Rightarrow> bool" where
  "string_less [] [] = False"
| "string_less [] (y # ys) = True"
| "string_less (x # xs) [] = False"
| "string_less (x # xs) (y # ys) =
     (if (of_char x :: nat) < of_char y then True
      else if (of_char y :: nat) < of_char x then False
      else string_less xs ys)"

text \<open>
  \<open>sort.Sort(sort.Reverse(arr))\<close>: the slice rearranged into descending order. The sort
  is not stable, but strings that compare equal are the same string, so the outcome is the
  one descending arrangement, here built by insertion.
\<close>

fun insert_desc :: "string \<Rightarrow> string list \<Rightarrow> string list" where
  "insert_desc x [] = [x]"
| "insert_desc x (y # ys) = (if string_less x y then y # insert_desc x ys else x # y # ys)"

definition sort_Reverse :: "string list \<Rightarrow> string list" where
  "sort_Reverse arr = foldr insert_desc arr []"

text \<open>\<open>net.SplitHostPort\<close>; \<open>None\<close> when it returns an error.\<close>

fun IndexByte :: "string \<Rightarrow> char \<Rightarrow> nat option" where
  "IndexByte [] ch = None"
| "IndexByte (x # xs) ch =
     (if x = ch then Some 0 else case IndexByte xs ch of None \<Rightarrow> None | Some i \<Rightarrow> Some (Suc i))"

fun LastIndexByte :: "string \<Rightarrow> char \<Rightarrow> nat option" where
  "LastIndexByte [] ch = None"
| "LastIndexByte (x # xs) ch =
     (case LastIndexByte xs ch of
        Some i \<Rightarrow> Some (Suc i)
      | None \<Rightarrow> if x = ch then Some 0 else None)"

definition SplitHostPort_tail :: "string \<Rightarrow> string \<Rightarrow> nat \<Rightarrow> nat \<Rightarrow> nat \<Rightarrow> (string \<times> string) option" where
  \<comment> \<open>the checks after \<open>host\<close>, \<open>j\<close> and \<open>k\<close> are set, and the port after the colon at \<open>i\<close>\<close>
  "SplitHostPort_tail hostport host j k i =
     (if IndexByte (drop j hostport) (CHR ''['') \<noteq> None then None
      else if IndexByte (drop k hostport) (CHR '']'') \<noteq> None then None
      else Some (host, drop (Suc i) hostport))"

definition SplitHostPort :: "string \<Rightarrow> (string \<times> string) option" where
  "SplitHostPort hostport =
     (case LastIndexByte hostport (CHR '':'') of
        None \<Rightarrow> None
      | Some i \<Rightarrow>
          if hostport ! 0 = CHR ''[''
          then (case IndexByte hostport (CHR '']'') of
                  None \<Rightarrow> None
                | Some close \<Rightarrow>
                    if close + 1 = i
                    then SplitHostPort_tail hostport (take (close - 1) (drop 1 hostport)) 1 (close + 1) i
                    else None)
          else
            let host = take i hostport
            in if IndexByte host (CHR '':'') \<noteq> None then None
               else SplitHostPort_tail hostport host 0 0 i)"

definition GetRemoteAddr :: "Request \<Rightarrow> string" where
  "GetRemoteAddr req = (case SplitHostPort (RemoteAddr req) of None \<Rightarrow> [] | Some (remoteAddr, _) \<Rightarrow> remoteAddr)"

definition GetRealIP :: "Request \<Rightarrow> string" where
  "GetRealIP req =
     (let h = req_Header req;
          ip = Header_Get h HeaderXForwardedFor
      in if ip \<noteq> [] then TrimSpace (Split ip (CHR '','') ! 0)
         else
           let ip = Header_Get h HeaderXRealIP
           in if ip \<noteq> [] then ip else GetRemoteAddr req)"

text \<open>
  The loop of \<open>GetClientIP\<close> over the sorted entries. \<open>net.ParseIP\<close> is the parameter
  \<open>ParseIP\<close>; \<open>intranetip.Is\<close> is the library that holds the table and the test of
  \<open>IsPrivateIP\<close>.
\<close>

fun GetClientIP_loop :: "(string \<Rightarrow> IP option) \<Rightarrow> string list \<Rightarrow> string option" where
  "GetClientIP_loop ParseIP [] = None"
| "GetClientIP_loop ParseIP (val # rest) =
     (let v = TrimSpace val
      in if \<not> IsPrivateIP (ParseIP v) then Some v else GetClientIP_loop ParseIP rest)"

definition GetClientIP :: "(string \<Rightarrow> IP option) \<Rightarrow> Request \<Rightarrow> string" where
  "GetClientIP ParseIP req =
     (let h = req_Header req;
          ip = Header_Get h HeaderXForwardedFor;
          found = (if ip \<noteq> []
                   then let arr = Split ip (CHR '','');
                            arr = sort_Reverse arr
                        in GetClientIP_loop ParseIP arr
                   else None)
      in case found of
           Some v \<Rightarrow> v
         | None \<Rightarrow>
             let ip = Header_Get h HeaderXRealIP
             in if ip \<noteq> [] \<and> \<not> IsPrivateIP (ParseIP ip) then ip
                else GetRemoteAddr req)"

definition ClientIP :: "(string \<Rightarrow> IP option) \<Rightarrow> Context \<Rightarrow> fault + (string \<times> Context)" where
  "ClientIP ParseIP c =
     (if clientIP c \<noteq> [] then Inr (clientIP c, c)
      else case Request c of
             None \<Rightarrow> Inl NilDereference
           | Some req \<Rightarrow>
               let c = c\<lparr>clientIP := GetClientIP ParseIP req\<rparr>
               in Inr (clientIP c, c))"

text \<open>
  \<open>net.ParseIP\<close> on dotted-decimal IPv4 text: four decimal fields of value at most 255,
  without leading zeros. Text of any other form, IPv6 text included, is left unparsed by
  this instance of the parameter; the examples below use IPv4 text only.
\<close>

definition digit_val :: "char \<Rightarrow> nat option" where
  "digit_val ch =
     (let n = (of_char ch :: nat) in if 48 \<le> n \<and> n \<le> 57 then Some (n - 48) else None)"

fun dtoi :: "string \<Rightarrow> nat \<Rightarrow> nat option" where
  "dtoi [] n = Some n"
| "dtoi (ch # rest) n =
     (case digit_val ch of
        None \<Rightarrow> None
      | Some d \<Rightarrow> if 255 < n * 10 + d then None else dtoi rest (n * 10 + d))"

definition parse_field :: "string \<Rightarrow> nat option" where
  "parse_field s =
     (if s = [] then None
      else if 1 < length s \<and> s ! 0 = CHR ''0'' then None
      else dtoi s 0)"

definition ParseIPv4 :: "string \<Rightarrow> IP option" where
  "ParseIPv4 s =
     (case map parse_field (Split s (CHR ''.'')) of
        [Some a, Some b, Some c, Some d] \<Rightarrow> Some (IP4 (ipv4 a b c d))
      | _ \<Rightarrow> None)"

text \<open>The claim's reading of the scan: the entries in the order of the header.\<close>

definition first_public_in_header :: "(string \<Rightarrow> IP option) \<Rightarrow> string \<Rightarrow> string option" where
  "first_public_in_header ParseIP ip = GetClientIP_loop ParseIP (Split ip (CHR '',''))"

section \<open>The dispatcher (Elton.Handle)\<close>

text \<open>
  What a request's chain runs on: the Context \<open>c\<close>, the two variables the closure
  \<open>c.Next\<close> captures and updates (\<open>index\<close>, and \<open>traceInfos\<close>, nil when tracing is
  off), and the reading of the monotonic clock that \<open>time.Now()\<close> returns, in
  nanoseconds. A handler advances the clock by the time it takes. The cursor \<open>index\<close> is
  a Go \<open>int\<close> that starts at -1 and is only ever incremented, once per call of \<open>Next\<close>;
  it is an unbounded integer here.
\<close>

record state =
  ctx :: Context
  index :: int
  traceInfos :: "TraceInfo list option"
  clock :: int

text \<open>
  A call either faults or returns an \<open>error\<close> (nil is \<open>None\<close>) and the state it leaves.
  A \<open>Handler\<close> is a Go \<open>func(*Context) error\<close>; the continuation it reaches as
  \<open>c.Next\<close> is its first argument here. A chain entry pairs the handler with the name
  \<open>GetFunctionName\<close> resolves for it.
\<close>

type_synonym outcome = "fault + (error option \<times> state)"

type_synonym Handler = "(state \<Rightarrow> outcome) \<Rightarrow> state \<Rightarrow> outcome"

text \<open>The fields of \<open>Elton\<close> that hold functions over the Context.\<close>

record EltonFuncs =
  Middlewares :: "(string \<times> Handler) list"
  errorListeners :: "(Context \<Rightarrow> error \<Rightarrow> Context) list"
  traceListeners :: "(Context \<Rightarrow> TraceInfo list \<Rightarrow> Context) list"
  ErrorHandler :: "(Context \<Rightarrow> error \<Rightarrow> Context) option"

text \<open>Indexing a slice: out of range is a panic.\<close>

definition slice_at :: "'a list \<Rightarrow> int \<Rightarrow> 'a option" where
  "slice_at xs i = (if 0 \<le> i \<and> i < int (length xs) then Some (xs ! nat i) else None)"

text \<open>
  The validation loop: \<open>range c.Params\<close>, and for a key with a registered validator the
  call of it; the first error ends the loop.
\<close>

fun validate_params :: "(string \<rightharpoonup> Validator) \<Rightarrow> (string \<times> string) list \<Rightarrow> error option" where
  "validate_params vs [] = None"
| "validate_params vs ((key, val) # rest) =
     (case vs key of
        None \<Rightarrow> validate_params vs rest
      | Some validator \<Rightarrow>
          (case validator val of
             Some e \<Rightarrow> Some e
           | None \<Rightarrow> validate_params vs rest))"

definition range_Params :: "Context \<Rightarrow> (string \<times> string) list" where
  "range_Params c = (case Params c of None \<Rightarrow> [] | Some ps \<Rightarrow> ps)"

text \<open>
  The write through the pointer \<open>traceInfo\<close> after the handler has returned: the record
  appended at position \<open>k\<close> gets its duration.
\<close>

definition set_Duration :: "TraceInfo list \<Rightarrow> nat \<Rightarrow> int \<Rightarrow> TraceInfo list" where
  "set_Duration infos k d = (if k < length infos then infos[k := (infos ! k)\<lparr>Duration := d\<rparr>] else infos)"

text \<open>
  The call of the handler chosen (lines 1293 to 1311): directly when tracing is off or the
  name is the skip sentinel, and else between the append of its record and the write of its
  duration.
\<close>

definition call_handler :: "(string \<times> Handler) \<Rightarrow> (state \<Rightarrow> outcome) \<Rightarrow> state \<Rightarrow> outcome" where
  "call_handler entry next s =
     (case entry of (fnName, fn) \<Rightarrow>
        (case traceInfos s of
           None \<Rightarrow> fn next s
         | Some infos \<Rightarrow>
             if fnName = ''-'' then fn next s
             else
               let startedAt = clock s;
                   traceInfo = \<lparr>Name = fnName, Duration = 0\<rparr>;
                   k = length infos;
                   s = s\<lparr>traceInfos := Some (infos @ [traceInfo])\<rparr>
               in case fn next s of
                    Inl f \<Rightarrow> Inl f
                  | Inr (err, s') \<Rightarrow>
                      Inr (err, s'\<lparr>traceInfos :=
                                    map_option (\<lambda>infos'. set_Duration infos' k (clock s' - startedAt))
                                      (traceInfos s')\<rparr>)))"

text \<open>
  The closure \<open>c.Next\<close> that \<open>Handle\<close> installs, for the global handlers \<open>Middlewares\<close>
  and the route's \<open>handlerList\<close>. The fuel bounds the nesting of \<open>Next\<close> calls: the
  continuation handed to a handler has one unit less.
\<close>

fun Handle_Next :: "nat \<Rightarrow> Elton \<Rightarrow> EltonFuncs \<Rightarrow> (string \<times> Handler) list \<Rightarrow> state \<Rightarrow> outcome" where
  "Handle_Next 0 d fs handlerList s = Inl OutOfFuel"
| "Handle_Next (Suc fuel) d fs handlerList s =
     (let mids = Middlewares fs;
          maxMid = int (length mids);
          maxNext = maxMid + int (length handlerList)
      in if Committed (ctx s) then Inr (None, s)
         else
           let s = s\<lparr>index := index s + 1\<rparr>
           in if index s \<ge> maxNext then Inr (None, s)
              else
                case (if index s = maxNext - 1
                      then (case validators d of
                              None \<Rightarrow> None
                            | Some vs \<Rightarrow> validate_params vs (range_Params (ctx s)))
                      else None) of
                  Some e \<Rightarrow> Inr (Some e, s)
                | None \<Rightarrow>
                    (case (if index s \<ge> maxMid then slice_at handlerList (index s - maxMid)
                           else slice_at mids (index s)) of
                       None \<Rightarrow> Inl IndexOutOfRange
                     | Some entry \<Rightarrow> call_handler entry (Handle_Next fuel d fs handlerList) s))"

text \<open>
  The pass over the records after the chain: in ascending order of \<open>i\<close>, the record at
  \<open>i\<close> loses the duration the record at \<open>i + 1\<close> holds at that moment.
\<close>

definition subtract_step :: "TraceInfo list \<Rightarrow> nat \<Rightarrow> TraceInfo list" where
  "subtract_step infos i =
     (let max = int (length infos)
      in if int i < max - 1
         then infos[i := (infos ! i)\<lparr>Duration := Duration (infos ! i) - Duration (infos ! (i + 1))\<rparr>]
         else infos)"






















text \<open>
  The self-times as the spec describes them, to compare \<open>subtract_pass\<close> with: every
  record but the last loses the duration of the record after it.
\<close>

fun self_times :: "TraceInfo list \<Rightarrow> TraceInfo list" where
  "self_times (t # t' # rest) = t\<lparr>Duration := Duration t - Duration t'\<rparr> # self_times (t' # rest)"
| "self_times infos = infos"

subsection \<open>Handlers and a validator for the scenarios\<close>

text \<open>
  The validator of the spec's scenario: digits only. Handlers: one that sets the status
  and returns, one that commits the response itself (as \<open>Redirect\<close> or \<open>Pipe\<close> do), one
  that takes \<open>n\<close> nanoseconds, one that sets a reader as the body, and one that calls
  \<open>c.Next()\<close> twice and returns what the second call returns.
\<close>

definition digits_only :: Validator where
  "digits_only v =
     (if v \<noteq> [] \<and> list_all (\<lambda>ch. digit_val ch \<noteq> None) v then None
      else Some (GoError ''id should be numbers''))"

definition status_handler :: "int \<Rightarrow> Handler" where
  "status_handler code next s = Inr (None, s\<lparr>ctx := (ctx s)\<lparr>StatusCode := code\<rparr>\<rparr>)"





text \<open>
  A call that never moves the cursor back; and a handler that leaves the cursor to the
  continuation, as every Go handler must, the cursor being a variable of the closure that
  only \<open>Next\<close> can reach: whatever such a handler does, the cursor moves only by its calls
  of the continuation.
\<close>

definition keeps_cursor :: "(state \<Rightarrow> outcome) \<Rightarrow> bool" where
  "keeps_cursor call = (\<forall>s r s'. call s = Inr (r, s') \<longrightarrow> index s \<le> index s')"

definition cursor_respecting :: "Handler \<Rightarrow> bool" where
  "cursor_respecting h = (\<forall>next. keeps_cursor next \<longrightarrow> keeps_cursor (h next))"

subsection \<open>Handlers that call Next at most once\<close>









section \<open>Claims about the signed key store\<close>

text \<open>
  C7. For each of the three generators and every key sequence \<open>ks\<close>, \<open>GetKeys\<close> called
  after \<open>SetKeys ks\<close> returns exactly \<open>ks\<close>: the same elements in the same order. For the
  mutex variant the calls are those of a sequential caller, so the mutex is not held when
  \<open>SetKeys\<close> starts; \<open>SetKeys\<close> then returns with the mutex released again and
  \<open>GetKeys\<close> does not block.
\<close>

theorem C7_GetKeys_after_SetKeys:
  "SimpleSignedKeys_GetKeys (SimpleSignedKeys_SetKeys sk ks) = ks
   \<and> AtomicSignedKeys_GetKeys (AtomicSignedKeys_SetKeys atSk ks) = Inr ks
   \<and> (unheld (mutex rwSk) \<longrightarrow>
        (\<exists>rwSk'. RWMutexSignedKeys_SetKeys rwSk ks = Some rwSk'
           \<and> unheld (mutex rwSk')
           \<and> RWMutexSignedKeys_GetKeys rwSk' = Some (ks, rwSk')))"
  by (simp add: SimpleSignedKeys_GetKeys_def SimpleSignedKeys_SetKeys_def
      AtomicSignedKeys_GetKeys_def AtomicSignedKeys_SetKeys_def
      RWMutexSignedKeys_GetKeys_def RWMutexSignedKeys_SetKeys_def
      RLock_def RUnlock_def Lock_def Unlock_def unheld_def Let_def)

theorem C7_GetKeys_after_SetKeys_witness:
  "unheld (mutex \<lparr>mutex = \<lparr>writer = False, readers = 0\<rparr>, rw_keys = [''old'']\<rparr>)
   \<and> (\<exists>rwSk'. RWMutexSignedKeys_SetKeys
          \<lparr>mutex = \<lparr>writer = False, readers = 0\<rparr>, rw_keys = [''old'']\<rparr> [''k1'', ''k2'']
            = Some rwSk'
        \<and> RWMutexSignedKeys_GetKeys rwSk' = Some ([''k1'', ''k2''], rwSk'))"
proof -
  let ?sk = "\<lparr>mutex = \<lparr>writer = False, readers = 0\<rparr>, rw_keys = [''old'']\<rparr>"
  have h: "unheld (mutex ?sk)"
    by (simp add: unheld_def)
  from C7_GetKeys_after_SetKeys [of _ "[''k1'', ''k2'']" _ ?sk] h
  show ?thesis by blast
qed

section \<open>Claims about the Context\<close>

text \<open>
  C8. Whatever state a Context is in, after \<open>Reset\<close> every field holds its zero value:
  nil Request, Response and Headers, Committed false, empty ID and Route, nil Next, Params,
  Body, BodyBuffer and RequestBody, StatusCode 0, no value store, empty cached real and
  client IPs, nil server back-reference, the reuse flag back at "reusable", no cached
  query. So a reset Context equals, field by field, a freshly constructed \<open>&Context{}\<close>,
  and it is reusable.
\<close>

theorem C8_Reset_is_zero_Context:
  "Reset c = zero_Context \<and> isReuse (Reset c)
   \<and> Request (Reset c) = None \<and> Response (Reset c) = None \<and> Headers (Reset c) = None
   \<and> Committed (Reset c) = False \<and> ID (Reset c) = [] \<and> Route (Reset c) = []
   \<and> Next (Reset c) = None \<and> Params (Reset c) = None \<and> StatusCode (Reset c) = 0
   \<and> Body (Reset c) = None \<and> BodyBuffer (Reset c) = None \<and> RequestBody (Reset c) = None
   \<and> ctx_m (Reset c) = None \<and> realIP (Reset c) = [] \<and> clientIP (Reset c) = []
   \<and> elton (Reset c) = None \<and> reuseStatus (Reset c) = ReuseContextEnabled
   \<and> cacheQuery (Reset c) = None"
  by (simp add: Reset_def zero_Context_def isReuse_def ReuseContextEnabled_def)


lemma Redirect_nil_Request:
  assumes "MinRedirectCode k \<le> code" and "code \<le> MaxRedirectCode k"
    and "Request c = None" and "Headers c = Some h" and "h ''Content-Type'' = None"
  shows "Redirect k lib c code url = Inl NilDereference"
  using assms
  by (simp add: Redirect_def http_Redirect_def Let_def split: option.splits)



text \<open>
  C9, as stated: with no signing keys configured, \<open>AddSignedCookie\<close> adds the plain
  cookie only and returns nil, whereas \<open>GetSignedCookie\<close> fails with the error "keys for
  sign cookie can't be nil". The second half does not hold for every request: the named
  cookie is looked up first, and a request without it is answered with the no-cookie
  error, whatever the keys are.
\<close>

theorem C9_GetSignedCookie_counterexample:
  "getKeys (NewContext None None (Some \<lparr>req_Method = ''GET'', req_URL_Path = ''/'', req_Header = Map.empty,
                   RemoteAddr = ''192.0.2.1:1234'',
                                        req_Cookies = []\<rparr>)) = Inr []
   \<and> GetSignedCookie \<lparr>kg_Sign = (\<lambda>keys data. data), kg_Index = (\<lambda>keys data digest. - 1)\<rparr>
        (NewContext None None (Some \<lparr>req_Method = ''GET'', req_URL_Path = ''/'', req_Header = Map.empty,
                   RemoteAddr = ''192.0.2.1:1234'',
                                     req_Cookies = []\<rparr>)) ''jt''
      = Inr (None, - 1, Some ErrNoCookie)
   \<and> ErrNoCookie \<noteq> errSignKeyIsNil"
  by (simp add: getKeys_def GetSignedCookie_def Context_Cookie_def NewContext_def
      zero_Context_def ErrNoCookie_def errSignKeyIsNil_def hes_New_def)

text \<open>
  C9, amended. When no signing keys are configured (nil server back-reference, nil
  generator, or a generator whose sequence is empty), \<open>AddSignedCookie\<close> on a Context with
  response headers appends the plain cookie, and nothing else, to \<open>Set-Cookie\<close> and
  returns nil; and \<open>GetSignedCookie\<close> for a cookie that the request carries returns that
  cookie with index -1 and the error "keys for sign cookie can't be nil". For a cookie that
  the request does not carry (or for the empty name), \<open>GetSignedCookie\<close> returns no
  cookie, index -1 and the no-cookie error of net/http, whatever the keys are.
\<close>

theorem C9_no_keys:
  "((elton c = None \<or> (\<exists>e. elton c = Some e \<and>
        (SignedKeys e = None \<or> (\<exists>g. SignedKeys e = Some g \<and> GetKeys g = Inr []))))
    \<longrightarrow>
    (getKeys c = Inr []
     \<and> (\<forall>h. Headers c = Some h \<longrightarrow>
           AddSignedCookie kg cookie_String c cookie =
             Inr (None, c\<lparr>Headers := Some (Header_Add h HeaderSetCookie (cookie_String cookie))\<rparr>))
     \<and> (\<forall>r ck. Request c = Some r \<and> name \<noteq> []
                  \<and> find (\<lambda>x. cookie_Name x = name) (req_Cookies r) = Some ck \<longrightarrow>
           GetSignedCookie kg c name = Inr (Some ck, - 1, Some errSignKeyIsNil))))
   \<and> (\<forall>r. Request c = Some r
            \<and> (name = [] \<or> find (\<lambda>x. cookie_Name x = name) (req_Cookies r) = None) \<longrightarrow>
          GetSignedCookie kg c name = Inr (None, - 1, Some ErrNoCookie))"
proof (intro conjI impI allI)
  assume none: "elton c = None \<or> (\<exists>e. elton c = Some e \<and>
        (SignedKeys e = None \<or> (\<exists>g. SignedKeys e = Some g \<and> GetKeys g = Inr [])))"
  then show keys: "getKeys c = Inr []"
    by (auto simp: getKeys_def)
  show "AddSignedCookie kg cookie_String c cookie =
      Inr (None, c\<lparr>Headers := Some (Header_Add h HeaderSetCookie (cookie_String cookie))\<rparr>)"
    if "Headers c = Some h" for h
    using that keys
    by (simp add: AddSignedCookie_def AddCookie_def AddHeader_def addSigCookie_def
        getKeys_def Let_def)
  show "GetSignedCookie kg c name = Inr (Some ck, - 1, Some errSignKeyIsNil)"
    if "Request c = Some r \<and> name \<noteq> []
       \<and> find (\<lambda>x. cookie_Name x = name) (req_Cookies r) = Some ck" for r ck
    using that keys
    by (simp add: GetSignedCookie_def Context_Cookie_def)
next
  fix r
  assume "Request c = Some r
      \<and> (name = [] \<or> find (\<lambda>x. cookie_Name x = name) (req_Cookies r) = None)"
  then show "GetSignedCookie kg c name = Inr (None, - 1, Some ErrNoCookie)"
    by (auto simp: GetSignedCookie_def Context_Cookie_def)
qed

theorem C9_no_keys_witness:
  "elton (NewContext (Some \<lparr>calls = [], fail_with = None\<rparr>) (Some Map.empty)
            (Some \<lparr>req_Method = ''GET'', req_URL_Path = ''/'', req_Header = Map.empty,
                   RemoteAddr = ''192.0.2.1:1234'',
                   req_Cookies = [\<lparr>cookie_Name = ''jt'', cookie_Value = ''abc'', cookie_Path = [],
                     cookie_Domain = [], cookie_Expires = 0, cookie_RawExpires = [],
                     cookie_MaxAge = 0, cookie_Secure = False, cookie_HttpOnly = False,
                     cookie_SameSite = 0, cookie_Raw = [], cookie_Unparsed = []\<rparr>]\<rparr>)) = None
   \<and> AddSignedCookie \<lparr>kg_Sign = (\<lambda>keys data. data), kg_Index = (\<lambda>keys data digest. - 1)\<rparr>
        (\<lambda>ck. cookie_Name ck @ ''='' @ cookie_Value ck)
        (NewContext (Some \<lparr>calls = [], fail_with = None\<rparr>) (Some Map.empty)
            (Some \<lparr>req_Method = ''GET'', req_URL_Path = ''/'', req_Header = Map.empty,
                   RemoteAddr = ''192.0.2.1:1234'',
                   req_Cookies = [\<lparr>cookie_Name = ''jt'', cookie_Value = ''abc'', cookie_Path = [],
                     cookie_Domain = [], cookie_Expires = 0, cookie_RawExpires = [],
                     cookie_MaxAge = 0, cookie_Secure = False, cookie_HttpOnly = False,
                     cookie_SameSite = 0, cookie_Raw = [], cookie_Unparsed = []\<rparr>]\<rparr>))
        \<lparr>cookie_Name = ''jt'', cookie_Value = ''abc'', cookie_Path = [],
          cookie_Domain = [], cookie_Expires = 0, cookie_RawExpires = [],
          cookie_MaxAge = 0, cookie_Secure = False, cookie_HttpOnly = False,
          cookie_SameSite = 0, cookie_Raw = [], cookie_Unparsed = []\<rparr>
      = Inr (None,
          (NewContext (Some \<lparr>calls = [], fail_with = None\<rparr>) (Some Map.empty)
            (Some \<lparr>req_Method = ''GET'', req_URL_Path = ''/'', req_Header = Map.empty,
                   RemoteAddr = ''192.0.2.1:1234'',
                   req_Cookies = [\<lparr>cookie_Name = ''jt'', cookie_Value = ''abc'', cookie_Path = [],
                     cookie_Domain = [], cookie_Expires = 0, cookie_RawExpires = [],
                     cookie_MaxAge = 0, cookie_Secure = False, cookie_HttpOnly = False,
                     cookie_SameSite = 0, cookie_Raw = [], cookie_Unparsed = []\<rparr>]\<rparr>))
          \<lparr>Headers := Some [''Set-Cookie'' \<mapsto> [''jt=abc'']]\<rparr>)
   \<and> GetSignedCookie \<lparr>kg_Sign = (\<lambda>keys data. data), kg_Index = (\<lambda>keys data digest. - 1)\<rparr>
        (NewContext (Some \<lparr>calls = [], fail_with = None\<rparr>) (Some Map.empty)
            (Some \<lparr>req_Method = ''GET'', req_URL_Path = ''/'', req_Header = Map.empty,
                   RemoteAddr = ''192.0.2.1:1234'',
                   req_Cookies = [\<lparr>cookie_Name = ''jt'', cookie_Value = ''abc'', cookie_Path = [],
                     cookie_Domain = [], cookie_Expires = 0, cookie_RawExpires = [],
                     cookie_MaxAge = 0, cookie_Secure = False, cookie_HttpOnly = False,
                     cookie_SameSite = 0, cookie_Raw = [], cookie_Unparsed = []\<rparr>]\<rparr>)) ''jt''
      = Inr (Some \<lparr>cookie_Name = ''jt'', cookie_Value = ''abc'', cookie_Path = [],
                   cookie_Domain = [], cookie_Expires = 0, cookie_RawExpires = [],
                   cookie_MaxAge = 0, cookie_Secure = False, cookie_HttpOnly = False,
                   cookie_SameSite = 0, cookie_Raw = [], cookie_Unparsed = []\<rparr>,
             - 1, Some errSignKeyIsNil)
   \<and> GetSignedCookie \<lparr>kg_Sign = (\<lambda>keys data. data), kg_Index = (\<lambda>keys data digest. - 1)\<rparr>
        (NewContext (Some \<lparr>calls = [], fail_with = None\<rparr>) (Some Map.empty)
            (Some \<lparr>req_Method = ''GET'', req_URL_Path = ''/'', req_Header = Map.empty,
                   RemoteAddr = ''192.0.2.1:1234'',
                   req_Cookies = [\<lparr>cookie_Name = ''jt'', cookie_Value = ''abc'', cookie_Path = [],
                     cookie_Domain = [], cookie_Expires = 0, cookie_RawExpires = [],
                     cookie_MaxAge = 0, cookie_Secure = False, cookie_HttpOnly = False,
                     cookie_SameSite = 0, cookie_Raw = [], cookie_Unparsed = []\<rparr>]\<rparr>)) ''sid''
      = Inr (None, - 1, Some ErrNoCookie)"
proof -
  let ?ck = "\<lparr>cookie_Name = ''jt'', cookie_Value = ''abc'', cookie_Path = [],
          cookie_Domain = [], cookie_Expires = 0, cookie_RawExpires = [],
          cookie_MaxAge = 0, cookie_Secure = False, cookie_HttpOnly = False,
          cookie_SameSite = 0, cookie_Raw = [], cookie_Unparsed = []\<rparr>"
  let ?r = "\<lparr>req_Method = ''GET'', req_URL_Path = ''/'', req_Header = Map.empty,
                   RemoteAddr = ''192.0.2.1:1234'', req_Cookies = [?ck]\<rparr>"
  let ?c = "NewContext (Some \<lparr>calls = [], fail_with = None\<rparr>) (Some Map.empty) (Some ?r)"
  let ?kg = "\<lparr>kg_Sign = (\<lambda>(keys :: string list) (data :: string). data),
              kg_Index = (\<lambda>(keys :: string list) (data :: string) (digest :: string). - 1 :: int)\<rparr>"
  let ?cs = "\<lambda>ck. cookie_Name ck @ ''='' @ cookie_Value ck"
  have e: "elton ?c = None"
    by (simp add: NewContext_def zero_Context_def)
  have h: "Headers ?c = Some Map.empty"
    by (simp add: NewContext_def zero_Context_def)
  have r: "Request ?c = Some ?r \<and> ''jt'' \<noteq> []
      \<and> find (\<lambda>x. cookie_Name x = ''jt'') (req_Cookies ?r) = Some ?ck"
    by (simp add: NewContext_def zero_Context_def)
  have r': "Request ?c = Some ?r
      \<and> (''sid'' = [] \<or> find (\<lambda>x. cookie_Name x = ''sid'') (req_Cookies ?r) = None)"
    by (simp add: NewContext_def zero_Context_def)
  from C9_no_keys [of ?c ?kg ?cs ?ck "''jt''"] e
  have all: "(\<forall>h. Headers ?c = Some h \<longrightarrow>
          AddSignedCookie ?kg ?cs ?c ?ck =
            Inr (None, ?c\<lparr>Headers := Some (Header_Add h HeaderSetCookie (?cs ?ck))\<rparr>))
    \<and> (\<forall>r ck. Request ?c = Some r \<and> ''jt'' \<noteq> []
                 \<and> find (\<lambda>x. cookie_Name x = ''jt'') (req_Cookies r) = Some ck \<longrightarrow>
          GetSignedCookie ?kg ?c ''jt'' = Inr (Some ck, - 1, Some errSignKeyIsNil))"
    by blast
  from all h have a: "AddSignedCookie ?kg ?cs ?c ?ck =
      Inr (None, ?c\<lparr>Headers := Some (Header_Add Map.empty HeaderSetCookie (?cs ?ck))\<rparr>)"
    by blast
  from all r have b: "GetSignedCookie ?kg ?c ''jt'' = Inr (Some ?ck, - 1, Some errSignKeyIsNil)"
    by blast
  from C9_no_keys [of ?c ?kg ?cs ?ck "''sid''"] r'
  have n: "GetSignedCookie ?kg ?c ''sid'' = Inr (None, - 1, Some ErrNoCookie)"
    by blast
  have hd: "Header_Add Map.empty HeaderSetCookie (?cs ?ck) = [''Set-Cookie'' \<mapsto> [''jt=abc'']]"
    by (simp add: Header_Add_def HeaderSetCookie_def)
  from e a b n hd show ?thesis by simp
qed

section \<open>Claims about the Server-Timing encoding\<close>

lemma quo_nonneg: "0 \<le> a \<Longrightarrow> 0 < b \<Longrightarrow> quo a b = a div b"
  by (simp add: quo_def)

lemma rem_nonneg: "0 \<le> a \<Longrightarrow> 0 < b \<Longrightarrow> rem a b = a mod b"
  by (simp add: rem_def quo_nonneg minus_mult_div_eq_mod)

lemma nat_digits_one: "n < 10 \<Longrightarrow> nat_digits n = [digit_char n]"
  by (simp add: nat_digits.simps)

lemma nat_digits_two: "10 \<le> n \<Longrightarrow> n < 100 \<Longrightarrow> nat_digits n = two_digits n"
  by (subst nat_digits.simps) (simp add: two_digits_def nat_digits_one)

lemma off: "0 \<le> (ns::int) \<Longrightarrow> (ns mod 1000000) div 1000 div 10 = (ns div 10000) mod 100"
proof -
  have "ns mod 1000000 = 10000 * (ns div 10000 mod 100) + ns mod 10000"
    using zmod_zmult2_eq [of 100 ns 10000] by simp
  moreover have "(ns mod 1000000) div 1000 div 10 = (ns mod 1000000) div 10000"
    using zdiv_zmult2_eq [of 10 "ns mod 1000000" 1000] by simp
  ultimately show ?thesis by simp
qed

lemma split_1000: "x = 1000 * q + r \<Longrightarrow> 0 \<le> r \<Longrightarrow> r < 1000 \<Longrightarrow> (q < 10) = (x < (10000::int))"
  by arith

lemma split_1000': "x = 1000 * q + r \<Longrightarrow> 0 \<le> r \<Longrightarrow> r < 1000 \<Longrightarrow> (q < 100) = (x < (100000::int))"
  by arith

lemma off_lt10: "((x::int) div 1000 < 10) = (x < 10000)"
  by (rule split_1000 [of x "x div 1000" "x mod 1000"]) simp_all

lemma off_lt100: "((x::int) div 1000 < 100) = (x < 100000)"
  by (rule split_1000' [of x "x div 1000" "x mod 1000"]) simp_all

lemma Itoa_one: "0 \<le> i \<Longrightarrow> i < 10 \<Longrightarrow> Itoa i = [digit_char (nat i)]"
  by (simp add: Itoa_def nat_digits_one)

lemma Itoa_two: "10 \<le> i \<Longrightarrow> i < 100 \<Longrightarrow> Itoa i = two_digits (nat i)"
  by (simp add: Itoa_def nat_digits_two)

lemma two_digits_small: "h < 10 \<Longrightarrow> two_digits h = ''0'' @ [digit_char h]"
  by (simp add: two_digits_def digit_char_def)

lemma getMs_ms_text: "getMs ns = ms_text ns"
proof (cases "ns < 1000")
  case True
  then show ?thesis by (simp add: getMs_def ms_text_def)
next
  case False
  then have nn: "0 \<le> ns" by simp
  have r: "rem ns 1000000 = ns mod 1000000" using nn by (simp add: rem_nonneg)
  have q: "quo ns 1000000 = ns div 1000000" using nn by (simp add: quo_nonneg)
  have o: "quo (rem ns 1000000) 1000 = (ns mod 1000000) div 1000"
    by (simp add: r quo_nonneg)
  define off where "off = (ns mod 1000000) div 1000"
  define h where "h = (ns div 10000) mod 100"
  have ob: "0 \<le> off" by (simp add: off_def)
  have t: "quo off 10 = h"
    using ob off [OF nn] by (simp add: quo_nonneg off_def h_def)
  have hb: "0 \<le> h" "h < 100" by (simp_all add: h_def)
  have lt: "off < 10 \<longleftrightarrow> ns mod 1000000 < 10000"
    unfolding off_def by (rule off_lt10)
  have ht: "off div 10 = h" using t ob by (simp add: quo_nonneg)
  have lt2: "off < 100 \<longleftrightarrow> h < 10"
    using ht ob by arith
  have g: "getMs ns = (if off < 10 then Itoa (ns div 1000000)
        else if off < 100 then Itoa (ns div 1000000) @ ''.0'' @ Itoa h
        else Itoa (ns div 1000000) @ ''.'' @ Itoa h)"
    using False by (simp add: getMs_def Let_def q o t flip: off_def)
  have m: "ms_text ns = (if off < 10 then Itoa (ns div 1000000)
        else Itoa (ns div 1000000) @ ''.'' @ two_digits (nat h))"
    using False by (simp add: ms_text_def lt flip: h_def)
  show ?thesis
  proof (cases "h < 10")
    case True
    then have "Itoa h = [digit_char (nat h)]" "two_digits (nat h) = ''0'' @ [digit_char (nat h)]"
      using hb by (simp_all add: Itoa_one two_digits_small)
    then show ?thesis using True by (simp add: g m lt2)
  next
    case False
    then have "Itoa h = two_digits (nat h)" using hb by (simp add: Itoa_two)
    then show ?thesis using False by (simp add: g m lt2)
  qed
qed


lemma comma_join_Cons:
  "comma_join (x # xs) = (if xs = [] then x else x @ '','' @ comma_join xs)"
  by (cases xs) simp_all

lemma ServerTiming_loop_step:
  assumes "sz = i + length (t # rest)"
  shows "ServerTiming_loop prefix sz i (t # rest) s =
     ServerTiming_loop prefix sz (Suc i) rest
       (s @ token prefix i t @ (if rest = [] then [] else '',''))"
proof -
  from assms have c: "(int i \<noteq> int sz - 1) = (rest \<noteq> [])"
    by auto
  have "ServerTiming_loop prefix sz i (t # rest) s =
      ServerTiming_loop prefix sz (i + 1) rest
        (if rest \<noteq> [] then (s @ prefix @ Itoa (int i) @ ServerTimingDur @ getMs (Duration t)
             @ ServerTimingDesc @ Name t @ ServerTimingEnd) @ '',''
         else s @ prefix @ Itoa (int i) @ ServerTimingDur @ getMs (Duration t)
             @ ServerTimingDesc @ Name t @ ServerTimingEnd)"
    by (subst ServerTiming_loop.simps(2)) (simp only: Let_def c append_assoc)
  also have "\<dots> = ServerTiming_loop prefix sz (Suc i) rest
       (s @ token prefix i t @ (if rest = [] then [] else '',''))"
    by (simp add: token_def getMs_ms_text ServerTimingDur_def ServerTimingDesc_def
        ServerTimingEnd_def)
  finally show ?thesis .
qed

lemma enumerate_Nil_iff: "(enumerate n xs = []) = (xs = [])"
  by (cases xs) simp_all

lemma ServerTiming_loop_tokens:
  "sz = i + length xs \<Longrightarrow>
   ServerTiming_loop prefix sz i xs s =
     s @ comma_join (map (\<lambda>(j, t). token prefix j t) (enumerate i xs))"
proof (induction xs arbitrary: i s)
  case Nil
  then show ?case by simp
next
  case (Cons t rest)
  from Cons.prems have sz: "sz = Suc i + length rest" by simp
  show ?case
    unfolding ServerTiming_loop_step [OF Cons.prems] Cons.IH [OF sz]
    by (simp add: comma_join_Cons enumerate_Nil_iff del: comma_join.simps(2,3))
qed

text \<open>
  C6. For every sequence of trace records and every prefix, \<open>ServerTiming\<close> is the
  comma-joined sequence of the tokens \<open>{prefix}{index};dur={ms};desc="{name}"\<close> in the
  order of the records, where \<open>ms\<close> is the duration in milliseconds truncated (not
  rounded) to two decimal digits, without a decimal part when the remainder below a
  millisecond is under 10 microseconds, and \<open>0\<close> for a duration under one microsecond. The
  records \<open>{a, 1500000ns}\<close> and \<open>{b, 900ns}\<close> with prefix \<open>t-\<close> give
  \<open>t-0;dur=1.50;desc="a",t-1;dur=0;desc="b"\<close>, and the empty sequence gives the empty
  string.
\<close>

theorem C6_ServerTiming:
  "ServerTiming infos prefix =
     comma_join (map (\<lambda>(i, t). token prefix i t) (enumerate 0 infos))
   \<and> ServerTiming [\<lparr>Name = ''a'', Duration = 1500000\<rparr>, \<lparr>Name = ''b'', Duration = 900\<rparr>] ''t-''
       = ''t-0;dur=1.50;desc='' @ [CHR 0x22] @ ''a'' @ [CHR 0x22]
         @ '',t-1;dur=0;desc='' @ [CHR 0x22] @ ''b'' @ [CHR 0x22]
   \<and> ServerTiming [] prefix = []"
proof -
  have general: "ServerTiming infos prefix =
     comma_join (map (\<lambda>(i, t). token prefix i t) (enumerate 0 infos))"
    by (cases infos) (simp_all add: ServerTiming_def ServerTiming_loop_tokens del: ServerTiming_loop.simps)
  have example: "ServerTiming [\<lparr>Name = ''a'', Duration = 1500000\<rparr>, \<lparr>Name = ''b'', Duration = 900\<rparr>] ''t-''
       = ''t-0;dur=1.50;desc='' @ [CHR 0x22] @ ''a'' @ [CHR 0x22]
         @ '',t-1;dur=0;desc='' @ [CHR 0x22] @ ''b'' @ [CHR 0x22]"
    by (simp add: ServerTiming_def getMs_def quo_def rem_def Itoa_def nat_digits.simps digit_char_def
        ServerTimingDur_def ServerTimingDesc_def ServerTimingEnd_def Let_def)
  have empty: "ServerTiming [] prefix = []"
    by (simp add: ServerTiming_def)
  from general example empty show ?thesis by blast
qed

section \<open>Claims about IP resolution\<close>

lemma IsPrivateIP_examples:
  "IsPrivateIP (ParseIPv4 ''10.0.0.5'')"
  "\<not> IsPrivateIP (ParseIPv4 ''8.8.8.8'')"
  "\<not> IsPrivateIP (ParseIPv4 ''1.1.1.1'')"
  by (simp_all add: ParseIPv4_def parse_field_def digit_val_def IsPrivateIP_def
      privateIPBlocks_def ipv4_def)

lemma TrimSpace_examples:
  "TrimSpace ''10.0.0.5'' = ''10.0.0.5''"
  "TrimSpace '' 8.8.8.8'' = ''8.8.8.8''"
  "TrimSpace ''8.8.8.8'' = ''8.8.8.8''"
  "TrimSpace '' 1.1.1.1'' = ''1.1.1.1''"
  "TrimSpace ''1.1.1.1'' = ''1.1.1.1''"
  by (simp_all add: TrimSpace_def TrimLeftSpace_def TrimRightSpace_def isSpace_def
      isSpace2_def isSpace3_def)

lemma TrimSpace_unicode:
  "TrimSpace ([CHR 0xC2, CHR 0xA0] @ ''8.8.8.8'' @ [CHR 0xE2, CHR 0x80, CHR 0x83, CHR 0x0A])
     = ''8.8.8.8''"
  "TrimSpace ([CHR 0xC2] @ ''8.8.8.8'' @ [CHR 0xA0]) = [CHR 0xC2] @ ''8.8.8.8'' @ [CHR 0xA0]"
  by (simp_all add: TrimSpace_def TrimLeftSpace_def TrimRightSpace_def isSpace_def
      isSpace2_def isSpace3_def)

lemma GetRemoteAddr_example:
  "GetRemoteAddr \<lparr>req_Method = ''GET'', req_URL_Path = ''/'', req_Header = h,
       RemoteAddr = ''192.0.2.1:1234'', req_Cookies = cs\<rparr> = ''192.0.2.1''"
  by (simp add: GetRemoteAddr_def SplitHostPort_def SplitHostPort_tail_def Let_def)

text \<open>
  The two scenarios of the spec hold on the code: the header \<open>10.0.0.5, 8.8.8.8\<close> without
  \<open>X-Real-Ip\<close> gives \<open>8.8.8.8\<close>, and the header \<open>10.0.0.5\<close> alone gives the peer address.
\<close>

lemma GetClientIP_spec_scenarios:
  "GetClientIP ParseIPv4 \<lparr>req_Method = ''GET'', req_URL_Path = ''/'',
       req_Header = [HeaderXForwardedFor \<mapsto> [''10.0.0.5, 8.8.8.8'']],
       RemoteAddr = ''192.0.2.1:1234'', req_Cookies = []\<rparr> = ''8.8.8.8''"
  "GetClientIP ParseIPv4 \<lparr>req_Method = ''GET'', req_URL_Path = ''/'',
       req_Header = [HeaderXForwardedFor \<mapsto> [''10.0.0.5'']],
       RemoteAddr = ''192.0.2.1:1234'', req_Cookies = []\<rparr> = ''192.0.2.1''"
  by (simp_all add: GetClientIP_def Header_Get_def HeaderXForwardedFor_def HeaderXRealIP_def
      sort_Reverse_def TrimSpace_examples IsPrivateIP_examples
      GetRemoteAddr_example)

text \<open>
  C1. The claim: \<open>GetClientIP\<close> (and the memoizing \<open>ClientIP\<close>) returns the first entry
  of \<open>X-Forwarded-For\<close>, scanning the entries of the header, that is outside the private
  ranges. The code sorts the entries into descending byte order before it scans them, so
  the entry returned is the greatest public one as a string, not the first one of the
  header: for \<open>10.0.0.5, 1.1.1.1, 8.8.8.8\<close> and for \<open>1.1.1.1,8.8.8.8\<close> it is \<open>8.8.8.8\<close>,
  where the first public entry of the header is \<open>1.1.1.1\<close>.
\<close>

theorem C1_GetClientIP_scans_sorted_entries:
  "GetClientIP ParseIPv4 \<lparr>req_Method = ''GET'', req_URL_Path = ''/'',
       req_Header = [HeaderXForwardedFor \<mapsto> [''10.0.0.5, 1.1.1.1, 8.8.8.8'']],
       RemoteAddr = ''192.0.2.1:1234'', req_Cookies = []\<rparr> = ''8.8.8.8''
   \<and> first_public_in_header ParseIPv4 ''10.0.0.5, 1.1.1.1, 8.8.8.8'' = Some ''1.1.1.1''
   \<and> GetClientIP ParseIPv4 \<lparr>req_Method = ''GET'', req_URL_Path = ''/'',
       req_Header = [HeaderXForwardedFor \<mapsto> [''1.1.1.1,8.8.8.8'']],
       RemoteAddr = ''192.0.2.1:1234'', req_Cookies = []\<rparr> = ''8.8.8.8''
   \<and> first_public_in_header ParseIPv4 ''1.1.1.1,8.8.8.8'' = Some ''1.1.1.1''
   \<and> ClientIP ParseIPv4
        (NewContext None None
           (Some \<lparr>req_Method = ''GET'', req_URL_Path = ''/'',
       req_Header = [HeaderXForwardedFor \<mapsto> [''10.0.0.5, 1.1.1.1, 8.8.8.8'']],
                  RemoteAddr = ''192.0.2.1:1234'', req_Cookies = []\<rparr>))
      = Inr (''8.8.8.8'',
          (NewContext None None
             (Some \<lparr>req_Method = ''GET'', req_URL_Path = ''/'',
       req_Header = [HeaderXForwardedFor \<mapsto> [''10.0.0.5, 1.1.1.1, 8.8.8.8'']],
                    RemoteAddr = ''192.0.2.1:1234'', req_Cookies = []\<rparr>))\<lparr>clientIP := ''8.8.8.8''\<rparr>)"
proof -
  let ?r = "\<lparr>req_Method = ''GET'', req_URL_Path = ''/'',
       req_Header = [HeaderXForwardedFor \<mapsto> [''10.0.0.5, 1.1.1.1, 8.8.8.8'']],
       RemoteAddr = ''192.0.2.1:1234'', req_Cookies = []\<rparr>"
  have a: "GetClientIP ParseIPv4 ?r = ''8.8.8.8''"
    by (simp add: GetClientIP_def Header_Get_def HeaderXForwardedFor_def sort_Reverse_def
        TrimSpace_examples IsPrivateIP_examples)
  have b: "first_public_in_header ParseIPv4 ''10.0.0.5, 1.1.1.1, 8.8.8.8'' = Some ''1.1.1.1''"
    by (simp add: first_public_in_header_def TrimSpace_examples IsPrivateIP_examples)
  have c: "GetClientIP ParseIPv4 \<lparr>req_Method = ''GET'', req_URL_Path = ''/'',
       req_Header = [HeaderXForwardedFor \<mapsto> [''1.1.1.1,8.8.8.8'']],
       RemoteAddr = ''192.0.2.1:1234'', req_Cookies = []\<rparr> = ''8.8.8.8''"
    by (simp add: GetClientIP_def Header_Get_def HeaderXForwardedFor_def sort_Reverse_def
        TrimSpace_examples IsPrivateIP_examples)
  have d: "first_public_in_header ParseIPv4 ''1.1.1.1,8.8.8.8'' = Some ''1.1.1.1''"
    by (simp add: first_public_in_header_def TrimSpace_examples IsPrivateIP_examples)
  have e: "ClientIP ParseIPv4 (NewContext None None (Some ?r))
      = Inr (''8.8.8.8'', (NewContext None None (Some ?r))\<lparr>clientIP := ''8.8.8.8''\<rparr>)"
    by (simp add: ClientIP_def NewContext_def zero_Context_def a)
  from a b c d e show ?thesis by simp
qed

section \<open>Claims about the chain\<close>

lemma slice_at_in_set: "slice_at xs i = Some x \<Longrightarrow> x \<in> set xs"
  by (auto simp: slice_at_def split: if_splits)

lemma call_handler_keeps_cursor:
  assumes "cursor_respecting (snd entry)" and "keeps_cursor next"
  shows "keeps_cursor (call_handler entry next)"
proof -
  obtain fnName fn where entry: "entry = (fnName, fn)"
    by (cases entry)
  with assms have fn: "keeps_cursor (fn next)"
    by (simp add: cursor_respecting_def)
  show ?thesis
    unfolding keeps_cursor_def
  proof (intro allI impI)
    fix s r s'
    assume run: "call_handler entry next s = Inr (r, s')"
    show "index s \<le> index s'"
    proof (cases "traceInfos s")
      case None
      with run entry fn show ?thesis
        by (auto simp: call_handler_def keeps_cursor_def)
    next
      case (Some infos)
      show ?thesis
      proof (cases "fnName = ''-''")
        case True
        with run entry fn Some show ?thesis
          by (auto simp: call_handler_def keeps_cursor_def)
      next
        case False
        with run entry Some obtain s'' where
          inner: "fn next (s\<lparr>traceInfos := Some (infos @ [\<lparr>Name = fnName, Duration = 0\<rparr>])\<rparr>) = Inr (r, s'')"
          and idx: "index s' = index s''"
          by (auto simp: call_handler_def Let_def split: sum.splits)
        from fn inner have "index (s\<lparr>traceInfos := Some (infos @ [\<lparr>Name = fnName, Duration = 0\<rparr>])\<rparr>) \<le> index s''"
          unfolding keeps_cursor_def by blast
        with idx show ?thesis
          by simp
      qed
    qed
  qed
qed

lemma Handle_Next_keeps_cursor:
  assumes "\<forall>entry \<in> set (Middlewares fs @ handlerList). cursor_respecting (snd entry)"
  shows "keeps_cursor (Handle_Next fuel d fs handlerList)"
proof (induction fuel)
  case 0
  show ?case
    by (simp add: keeps_cursor_def)
next
  case (Suc fuel)
  show ?case
    unfolding keeps_cursor_def
  proof (intro allI impI)
    fix s r s'
    assume run: "Handle_Next (Suc fuel) d fs handlerList s = Inr (r, s')"
    let ?s1 = "s\<lparr>index := index s + 1\<rparr>"
    consider (same) "s' = s" | (bumped) "s' = ?s1"
      | (called) entry where "entry \<in> set (Middlewares fs @ handlerList)"
          "call_handler entry (Handle_Next fuel d fs handlerList) ?s1 = Inr (r, s')"
      using run
      by (auto simp: Let_def split: if_splits option.splits dest: slice_at_in_set)
    then show "index s \<le> index s'"
    proof cases
      case same
      then show ?thesis by simp
    next
      case bumped
      then show ?thesis by simp
    next
      case (called entry)
      with assms have "cursor_respecting (snd entry)"
        by blast
      from call_handler_keeps_cursor [OF this Suc.IH] called(2)
      have "index ?s1 \<le> index s'"
        unfolding keeps_cursor_def by blast
      then show ?thesis by simp
    qed
  qed
qed

lemma status_handler_cursor_respecting: "cursor_respecting (status_handler code)"
  by (simp add: cursor_respecting_def keeps_cursor_def status_handler_def)

text \<open>
  A call of \<open>Next\<close> that gets past the guards either returns a validator's error or
  calls the entry at the cursor's new position, and no other.
\<close>

lemma slice_at_cursor:
  assumes "0 \<le> i" and "i < int (length ms) + int (length hs)"
  shows "(if i \<ge> int (length ms) then slice_at hs (i - int (length ms)) else slice_at ms i)
     = Some ((ms @ hs) ! nat i)"
proof (cases "i \<ge> int (length ms)")
  case True
  with assms have "nat i - length ms = nat (i - int (length ms))" "\<not> nat i < length ms"
    by linarith+
  with True assms show ?thesis
    by (simp add: slice_at_def nth_append)
next
  case False
  with assms have "nat i < length ms"
    by linarith
  with False assms show ?thesis
    by (simp add: slice_at_def nth_append)
qed

lemma Handle_Next_calls_cursor_entry:
  assumes "\<not> Committed (ctx s)" and "0 \<le> index s + 1"
    and "index s + 1 < int (length (Middlewares fs)) + int (length handlerList)"
  shows "(\<exists>e. Handle_Next (Suc fuel) d fs handlerList s = Inr (Some e, s\<lparr>index := index s + 1\<rparr>))
    \<or> Handle_Next (Suc fuel) d fs handlerList s =
        call_handler ((Middlewares fs @ handlerList) ! nat (index s + 1))
          (Handle_Next fuel d fs handlerList) (s\<lparr>index := index s + 1\<rparr>)"
  using assms slice_at_cursor [OF assms(2,3)]
  by (auto simp: Let_def split: option.splits if_splits)

text \<open>
  C3. For every chain of G global and R route handlers, a call of the continuation when the
  response is committed, or when the cursor has reached G+R (this call included), returns
  nil at once: no handler is invoked (the state comes back as it was, but for the cursor
  in the second case, whatever the handlers are), and nothing panics. With handlers that
  leave the cursor to \<open>Next\<close>, no call of \<open>Next\<close> moves the cursor back; as a call
  invokes the entry at the new position only, a handler at or before the caller's position
  is never invoked again.
\<close>

theorem C3_extra_Next_is_noop:
  "(Committed (ctx s) \<longrightarrow> Handle_Next (Suc fuel) d fs handlerList s = Inr (None, s))
   \<and> (\<not> Committed (ctx s)
        \<and> int (length (Middlewares fs)) + int (length handlerList) \<le> index s + 1 \<longrightarrow>
        Handle_Next (Suc fuel) d fs handlerList s = Inr (None, s\<lparr>index := index s + 1\<rparr>))
   \<and> ((\<forall>entry \<in> set (Middlewares fs @ handlerList). cursor_respecting (snd entry)) \<longrightarrow>
        keeps_cursor (Handle_Next n d fs handlerList))"
  by (simp add: Let_def Handle_Next_keeps_cursor del: Handle_Next.simps)
     (simp add: Let_def)

theorem C3_extra_Next_is_noop_witness:
  "Committed (ctx \<lparr>ctx = zero_Context\<lparr>Committed := True\<rparr>, index = 0, traceInfos = None, clock = 0\<rparr>)
   \<and> Handle_Next (Suc 0) \<lparr>status = 0, EnableTrace = False, SignedKeys = None, validators = None,
          GenerateID = None\<rparr>
        \<lparr>Middlewares = [(''a'', status_handler 200)], errorListeners = [], traceListeners = [],
          ErrorHandler = None\<rparr>
        [(''b'', status_handler 204)]
        \<lparr>ctx = zero_Context\<lparr>Committed := True\<rparr>, index = 0, traceInfos = None, clock = 0\<rparr>
      = Inr (None, \<lparr>ctx = zero_Context\<lparr>Committed := True\<rparr>, index = 0, traceInfos = None, clock = 0\<rparr>)
   \<and> Handle_Next (Suc 0) \<lparr>status = 0, EnableTrace = False, SignedKeys = None, validators = None,
          GenerateID = None\<rparr>
        \<lparr>Middlewares = [(''a'', status_handler 200)], errorListeners = [], traceListeners = [],
          ErrorHandler = None\<rparr>
        [(''b'', status_handler 204)]
        \<lparr>ctx = zero_Context, index = 1, traceInfos = None, clock = 0\<rparr>
      = Inr (None, \<lparr>ctx = zero_Context, index = 2, traceInfos = None, clock = 0\<rparr>)
   \<and> cursor_respecting (status_handler 200) \<and> cursor_respecting (status_handler 204)
   \<and> keeps_cursor (Handle_Next (Suc (Suc 0))
        \<lparr>status = 0, EnableTrace = False, SignedKeys = None, validators = None, GenerateID = None\<rparr>
        \<lparr>Middlewares = [(''a'', status_handler 200)], errorListeners = [], traceListeners = [],
          ErrorHandler = None\<rparr>
        [(''b'', status_handler 204)])"
proof -
  let ?d = "\<lparr>status = 0, EnableTrace = False, SignedKeys = None, validators = None,
          GenerateID = None\<rparr>"
  let ?fs = "\<lparr>Middlewares = [(''a'', status_handler 200)], errorListeners = [], traceListeners = [],
          ErrorHandler = None\<rparr>"
  let ?hl = "[(''b'', status_handler 204)]"
  let ?s1 = "\<lparr>ctx = zero_Context\<lparr>Committed := True\<rparr>, index = 0, traceInfos = None, clock = 0\<rparr>"
  let ?s2 = "\<lparr>ctx = zero_Context, index = 1, traceInfos = None, clock = 0\<rparr>"
  have c1: "Committed (ctx ?s1)" by simp
  have c2: "\<not> Committed (ctx ?s2) \<and> int (length (Middlewares ?fs)) + int (length ?hl) \<le> index ?s2 + 1"
    by (simp add: zero_Context_def)
  have r: "cursor_respecting (status_handler 200)" "cursor_respecting (status_handler 204)"
    by (rule status_handler_cursor_respecting)+
  then have c3: "\<forall>entry \<in> set (Middlewares ?fs @ ?hl). cursor_respecting (snd entry)"
    by simp
  from C3_extra_Next_is_noop [of ?s1 0 ?d ?fs ?hl] c1
  have a: "Handle_Next (Suc 0) ?d ?fs ?hl ?s1 = Inr (None, ?s1)" by blast
  from C3_extra_Next_is_noop [of ?s2 0 ?d ?fs ?hl] c2
  have b: "Handle_Next (Suc 0) ?d ?fs ?hl ?s2 = Inr (None, ?s2\<lparr>index := index ?s2 + 1\<rparr>)" by blast
  from C3_extra_Next_is_noop [of ?s1 0 ?d ?fs ?hl "Suc (Suc 0)"] c3
  have k: "keeps_cursor (Handle_Next (Suc (Suc 0)) ?d ?fs ?hl)" by blast
  from c1 a b r k show ?thesis by simp
qed

lemma validate_params_Some:
  "validate_params vs ps = Some e \<Longrightarrow>
   \<exists>key val v. (key, val) \<in> set ps \<and> vs key = Some v \<and> v val = Some e"
  by (induction vs ps rule: validate_params.induct) (auto split: option.splits)

lemma validate_params_None:
  "(validate_params vs ps = None) =
   (\<forall>(key, val) \<in> set ps. \<forall>v. vs key = Some v \<longrightarrow> v val = None)"
  by (induction vs ps rule: validate_params.induct) (auto split: option.splits)

lemma slice_at_last:
  assumes "- 1 \<le> i" and "i + 1 = int (length ms) + int (length hs) - 1"
  shows "(if i + 1 \<ge> int (length ms) then slice_at hs (i + 1 - int (length ms)) else slice_at ms (i + 1))
     = Some (last (ms @ hs))"
proof (cases "hs = []")
  case True
  with assms have a: "int (length ms) = i + 2"
    by simp
  with assms(1) have ne: "ms \<noteq> []"
    by auto
  from a assms(1) have idx: "nat (i + 1) = length ms - 1"
    by linarith
  from a assms(1) have rng: "\<not> i + 1 \<ge> int (length ms)" "0 \<le> i + 1" "i + 1 < int (length ms)"
    by linarith+
  from True have "last (ms @ hs) = last ms"
    by simp
  also from ne have "\<dots> = ms ! (length ms - 1)"
    by (rule last_conv_nth)
  finally have "last (ms @ hs) = ms ! (length ms - 1)" .
  with idx rng show ?thesis
    by (simp add: slice_at_def)
next
  case False
  then have pos: "1 \<le> int (length hs)"
    by (cases hs) simp_all
  from assms pos have idx: "nat (i + 1 - int (length ms)) = length hs - 1"
    by linarith
  from assms pos have rng: "i + 1 \<ge> int (length ms)" "0 \<le> i + 1 - int (length ms)"
    "i + 1 - int (length ms) < int (length hs)"
    by linarith+
  from False have "last (ms @ hs) = last hs"
    by simp
  also from False have "\<dots> = hs ! (length hs - 1)"
    by (rule last_conv_nth)
  finally have "last (ms @ hs) = hs ! (length hs - 1)" .
  with idx rng show ?thesis
    by (simp add: slice_at_def)
qed

text \<open>
  C4. When the cursor reaches the last handler (index G+R-1) and validators are registered,
  the validators whose key is a bound route parameter decide: if one returns an error,
  Next returns that error as it is and the final handler is not invoked (the state comes
  back with the cursor advanced and nothing else changed); if all of them pass, and only
  then, the final handler is called.
\<close>

theorem C4_validators_before_last_handler:
  "\<not> Committed (ctx s) \<and> - 1 \<le> index s
   \<and> index s + 1 = int (length (Middlewares fs)) + int (length handlerList) - 1
   \<and> validators d = Some vs
   \<longrightarrow>
   (case validate_params vs (range_Params (ctx s)) of
      Some e \<Rightarrow>
        Handle_Next (Suc fuel) d fs handlerList s = Inr (Some e, s\<lparr>index := index s + 1\<rparr>)
        \<and> (\<exists>key val v. (key, val) \<in> set (range_Params (ctx s)) \<and> vs key = Some v \<and> v val = Some e)
    | None \<Rightarrow>
        Handle_Next (Suc fuel) d fs handlerList s =
          call_handler (last (Middlewares fs @ handlerList)) (Handle_Next fuel d fs handlerList)
            (s\<lparr>index := index s + 1\<rparr>))
   \<and> ((validate_params vs (range_Params (ctx s)) = None) =
        (\<forall>(key, val) \<in> set (range_Params (ctx s)). \<forall>v. vs key = Some v \<longrightarrow> v val = None))"
proof (intro impI conjI)
  assume h: "\<not> Committed (ctx s) \<and> - 1 \<le> index s
   \<and> index s + 1 = int (length (Middlewares fs)) + int (length handlerList) - 1
   \<and> validators d = Some vs"
  then have pick: "(if index s + 1 \<ge> int (length (Middlewares fs))
        then slice_at handlerList (index s + 1 - int (length (Middlewares fs)))
        else slice_at (Middlewares fs) (index s + 1))
      = Some (last (Middlewares fs @ handlerList))"
    by (intro slice_at_last) simp_all
  show "case validate_params vs (range_Params (ctx s)) of
      Some e \<Rightarrow>
        Handle_Next (Suc fuel) d fs handlerList s = Inr (Some e, s\<lparr>index := index s + 1\<rparr>)
        \<and> (\<exists>key val v. (key, val) \<in> set (range_Params (ctx s)) \<and> vs key = Some v \<and> v val = Some e)
    | None \<Rightarrow>
        Handle_Next (Suc fuel) d fs handlerList s =
          call_handler (last (Middlewares fs @ handlerList)) (Handle_Next fuel d fs handlerList)
            (s\<lparr>index := index s + 1\<rparr>)"
  proof (cases "validate_params vs (range_Params (ctx s))")
    case None
    with h pick show ?thesis
      by (auto simp: Let_def split: if_splits)
  next
    case (Some e)
    with h validate_params_Some [OF Some] show ?thesis
      by (simp add: Let_def)
  qed
next
  show "(validate_params vs (range_Params (ctx s)) = None) =
        (\<forall>(key, val) \<in> set (range_Params (ctx s)). \<forall>v. vs key = Some v \<longrightarrow> v val = None)"
    by (rule validate_params_None)
qed

theorem C4_validators_before_last_handler_witness:
  "Handle_Next (Suc 0)
      \<lparr>status = 0, EnableTrace = False, SignedKeys = None,
        validators = Some [''id'' \<mapsto> digits_only], GenerateID = None\<rparr>
      \<lparr>Middlewares = [], errorListeners = [], traceListeners = [], ErrorHandler = None\<rparr>
      [(''getUser'', status_handler 204)]
      \<lparr>ctx = zero_Context\<lparr>Params := Some [(''id'', ''42'')]\<rparr>, index = - 1,
        traceInfos = None, clock = 0\<rparr>
    = Inr (None,
        \<lparr>ctx = zero_Context\<lparr>Params := Some [(''id'', ''42'')], StatusCode := 204\<rparr>, index = 0,
          traceInfos = None, clock = 0\<rparr>)
   \<and> Handle_Next (Suc 0)
      \<lparr>status = 0, EnableTrace = False, SignedKeys = None,
        validators = Some [''id'' \<mapsto> digits_only], GenerateID = None\<rparr>
      \<lparr>Middlewares = [], errorListeners = [], traceListeners = [], ErrorHandler = None\<rparr>
      [(''getUser'', status_handler 204)]
      \<lparr>ctx = zero_Context\<lparr>Params := Some [(''id'', ''ab'')]\<rparr>, index = - 1,
        traceInfos = None, clock = 0\<rparr>
    = Inr (Some (GoError ''id should be numbers''),
        \<lparr>ctx = zero_Context\<lparr>Params := Some [(''id'', ''ab'')]\<rparr>, index = 0,
          traceInfos = None, clock = 0\<rparr>)"
proof -
  let ?vs = "[''id'' \<mapsto> digits_only]"
  let ?d = "\<lparr>status = 0, EnableTrace = False, SignedKeys = None,
        validators = Some ?vs, GenerateID = None\<rparr>"
  let ?fs = "\<lparr>Middlewares = [], errorListeners = [], traceListeners = [], ErrorHandler = None\<rparr>"
  let ?hl = "[(''getUser'', status_handler 204)]"
  let ?ok = "\<lparr>ctx = zero_Context\<lparr>Params := Some [(''id'', ''42'')]\<rparr>, index = - 1,
        traceInfos = None, clock = 0\<rparr>"
  let ?bad = "\<lparr>ctx = zero_Context\<lparr>Params := Some [(''id'', ''ab'')]\<rparr>, index = - 1,
        traceInfos = None, clock = 0\<rparr>"
  have h_ok: "\<not> Committed (ctx ?ok) \<and> - 1 \<le> index ?ok
      \<and> index ?ok + 1 = int (length (Middlewares ?fs)) + int (length ?hl) - 1
      \<and> validators ?d = Some ?vs"
    by (simp add: zero_Context_def)
  have h_bad: "\<not> Committed (ctx ?bad) \<and> - 1 \<le> index ?bad
      \<and> index ?bad + 1 = int (length (Middlewares ?fs)) + int (length ?hl) - 1
      \<and> validators ?d = Some ?vs"
    by (simp add: zero_Context_def)
  have v_ok: "validate_params ?vs (range_Params (ctx ?ok)) = None"
    by (simp add: range_Params_def zero_Context_def digits_only_def digit_val_def)
  have v_bad: "validate_params ?vs (range_Params (ctx ?bad)) = Some (GoError ''id should be numbers'')"
    by (simp add: range_Params_def zero_Context_def digits_only_def digit_val_def)
  from C4_validators_before_last_handler [of ?ok ?fs ?hl ?d ?vs 0] h_ok
  have "case validate_params ?vs (range_Params (ctx ?ok)) of
      Some e \<Rightarrow>
        Handle_Next (Suc 0) ?d ?fs ?hl ?ok = Inr (Some e, ?ok\<lparr>index := index ?ok + 1\<rparr>)
        \<and> (\<exists>key val v. (key, val) \<in> set (range_Params (ctx ?ok)) \<and> ?vs key = Some v \<and> v val = Some e)
    | None \<Rightarrow>
        Handle_Next (Suc 0) ?d ?fs ?hl ?ok =
          call_handler (last (Middlewares ?fs @ ?hl)) (Handle_Next 0 ?d ?fs ?hl)
            (?ok\<lparr>index := index ?ok + 1\<rparr>)"
    by blast
  then have ok: "Handle_Next (Suc 0) ?d ?fs ?hl ?ok =
          call_handler (last (Middlewares ?fs @ ?hl)) (Handle_Next 0 ?d ?fs ?hl)
            (?ok\<lparr>index := index ?ok + 1\<rparr>)"
    by (simp only: v_ok option.case)
  from C4_validators_before_last_handler [of ?bad ?fs ?hl ?d ?vs 0] h_bad
  have "case validate_params ?vs (range_Params (ctx ?bad)) of
      Some e \<Rightarrow>
        Handle_Next (Suc 0) ?d ?fs ?hl ?bad = Inr (Some e, ?bad\<lparr>index := index ?bad + 1\<rparr>)
        \<and> (\<exists>key val v. (key, val) \<in> set (range_Params (ctx ?bad)) \<and> ?vs key = Some v \<and> v val = Some e)
    | None \<Rightarrow>
        Handle_Next (Suc 0) ?d ?fs ?hl ?bad =
          call_handler (last (Middlewares ?fs @ ?hl)) (Handle_Next 0 ?d ?fs ?hl)
            (?bad\<lparr>index := index ?bad + 1\<rparr>)"
    by blast
  then have bad: "Handle_Next (Suc 0) ?d ?fs ?hl ?bad =
      Inr (Some (GoError ''id should be numbers''), ?bad\<lparr>index := index ?bad + 1\<rparr>)"
    by (simp only: v_bad option.case)
  have run: "call_handler (last (Middlewares ?fs @ ?hl)) (Handle_Next 0 ?d ?fs ?hl)
            (?ok\<lparr>index := index ?ok + 1\<rparr>)
      = Inr (None,
        \<lparr>ctx = zero_Context\<lparr>Params := Some [(''id'', ''42'')], StatusCode := 204\<rparr>, index = 0,
          traceInfos = None, clock = 0\<rparr>)"
    by (simp add: call_handler_def status_handler_def)
  from ok bad run show ?thesis
    by simp
qed

section \<open>Claims about the trace recorder\<close>

lemma self_times_length [simp]: "length (self_times infos) = length infos"
  by (induction infos rule: self_times.induct) simp_all


lemma subtract_step_length [simp]: "length (subtract_step xs k) = length xs"
  by (simp add: subtract_step_def Let_def)




















section \<open>Claims about the response finalizer\<close>

















end
